theory Spec2Isabelle
  imports Complex_Main
begin

section \<open>Values, series and exceptions\<close>

text \<open>
  The scripts work on pandas Series and DataFrames of 64-bit floats. The embedding keeps
  the structure of float arithmetic that the code can observe (a missing value, NaN, and
  the two infinities that a division by zero produces) and takes the finite values as
  real numbers. They are computed exactly, except in the volume normalization, whose
  three operations round to binary64 as the program's do. A Series whose entries are
  finite or missing is a list of \<open>real option\<close>, \<open>None\<close> being NaN.
  Python exceptions are values of \<open>exn\<close>, and a function that can raise returns
  \<open>exn + 'a\<close>.
\<close>

datatype exn = IndexError | KeyError | TypeError | ValueError | OverflowError | AttributeError

type_synonym series = "real option list"

text \<open>\<open>s.iloc[0]\<close> and \<open>s.iloc[-1]\<close>: both raise IndexError on an empty Series.\<close>

definition iloc_first :: "'a list \<Rightarrow> exn + 'a" where
  "iloc_first xs = (case xs of [] \<Rightarrow> Inl IndexError | x # _ \<Rightarrow> Inr x)"

definition iloc_last :: "'a list \<Rightarrow> exn + 'a" where
  "iloc_last xs = (if xs = [] then Inl IndexError else Inr (last xs))"

text \<open>\<open>s.dropna()\<close> keeps the entries that are not NaN, in order.\<close>

definition dropna :: "series \<Rightarrow> series" where
  "dropna xs = filter (\<lambda>x. x \<noteq> None) xs"

text \<open>
  Comparisons of two float values: every comparison with NaN is false, so neither
  \<open>a > b\<close> nor \<open>a < b\<close> holds when one side is missing.
\<close>

definition gt_nan :: "real option \<Rightarrow> real option \<Rightarrow> bool" where
  "gt_nan a b = (case (a, b) of (Some x, Some y) \<Rightarrow> x > y | _ \<Rightarrow> False)"

definition lt_nan :: "real option \<Rightarrow> real option \<Rightarrow> bool" where
  "lt_nan a b = (case (a, b) of (Some x, Some y) \<Rightarrow> x < y | _ \<Rightarrow> False)"

section \<open>Float values with infinities\<close>

text \<open>
  A division can leave the finite values: numpy divides by zero without raising and
  returns an infinity, or NaN for \<open>0/0\<close>. \<open>fnum\<close> is a float value with these three
  specials. The operations follow IEEE 754 on the specials; the sign of a zero is not
  tracked, a zero divisor counts as positive.
\<close>

datatype fnum = Fin real | PInf | NInf | NaN

definition of_value :: "real option \<Rightarrow> fnum" where
  "of_value v = (case v of None \<Rightarrow> NaN | Some x \<Rightarrow> Fin x)"

definition inf_of_sign :: "real \<Rightarrow> fnum" where
  "inf_of_sign s = (if 0 < s then PInf else if s < 0 then NInf else NaN)"

fun sign_of :: "fnum \<Rightarrow> real" where
  "sign_of (Fin a) = sgn a"
| "sign_of PInf = 1"
| "sign_of NInf = - 1"
| "sign_of NaN = 0"

fun is_finite :: "fnum \<Rightarrow> bool" where
  "is_finite (Fin a) = True"
| "is_finite _ = False"

fun fin_val :: "fnum \<Rightarrow> real" where
  "fin_val (Fin a) = a"
| "fin_val _ = 0"

fun fneg :: "fnum \<Rightarrow> fnum" where
  "fneg (Fin a) = Fin (- a)"
| "fneg PInf = NInf"
| "fneg NInf = PInf"
| "fneg NaN = NaN"

definition fadd :: "fnum \<Rightarrow> fnum \<Rightarrow> fnum" where
  "fadd x y =
     (case (x, y) of
        (NaN, _) \<Rightarrow> NaN
      | (_, NaN) \<Rightarrow> NaN
      | (Fin a, Fin b) \<Rightarrow> Fin (a + b)
      | (Fin a, i) \<Rightarrow> i
      | (i, Fin b) \<Rightarrow> i
      | (i, j) \<Rightarrow> (if i = j then i else NaN))"

definition fsub :: "fnum \<Rightarrow> fnum \<Rightarrow> fnum" where
  "fsub x y = fadd x (fneg y)"

definition fmul :: "fnum \<Rightarrow> fnum \<Rightarrow> fnum" where
  "fmul x y =
     (case (x, y) of
        (NaN, _) \<Rightarrow> NaN
      | (_, NaN) \<Rightarrow> NaN
      | (Fin a, Fin b) \<Rightarrow> Fin (a * b)
      | (i, j) \<Rightarrow> inf_of_sign (sign_of i * sign_of j))"

definition fdiv :: "fnum \<Rightarrow> fnum \<Rightarrow> fnum" where
  "fdiv x y =
     (case (x, y) of
        (NaN, _) \<Rightarrow> NaN
      | (_, NaN) \<Rightarrow> NaN
      | (Fin a, Fin b) \<Rightarrow> (if b = 0 then inf_of_sign a else Fin (a / b))
      | (Fin a, j) \<Rightarrow> Fin 0
      | (i, Fin b) \<Rightarrow> inf_of_sign (sign_of i * (if b < 0 then - 1 else 1))
      | (i, j) \<Rightarrow> NaN)"

fun flt :: "fnum \<Rightarrow> fnum \<Rightarrow> bool" where
  "flt (Fin a) (Fin b) = (a < b)"
| "flt (Fin a) PInf = True"
| "flt NInf (Fin b) = True"
| "flt NInf PInf = True"
| "flt _ _ = False"

definition fgt :: "fnum \<Rightarrow> fnum \<Rightarrow> bool" where
  "fgt x y = flt y x"

subsection \<open>Rounding to binary64\<close>





section \<open>pandas: moving averages\<close>

subsection \<open>\<open>rolling(window=w).mean()\<close>\<close>

text \<open>
  pandas takes \<open>min_periods = window\<close> for a fixed window. The value at position \<open>i\<close> is
  the mean of the observations among the last \<open>w\<close> entries up to \<open>i\<close> when there are at
  least \<open>min_periods\<close> of them (and at least one), and NaN otherwise. A negative window
  is rejected with ValueError when the rolling object is built.
\<close>

definition rolling_window :: "nat \<Rightarrow> series \<Rightarrow> nat \<Rightarrow> series" where
  "rolling_window w xs i = (if Suc i < w then take (Suc i) xs else take w (drop (Suc i - w) xs))"

definition rolling_mean_at :: "nat \<Rightarrow> series \<Rightarrow> nat \<Rightarrow> real option" where
  "rolling_mean_at w xs i =
     (let obs = map the (dropna (rolling_window w xs i))
      in if w \<le> length obs \<and> 0 < length obs
         then Some (sum_list obs / real (length obs)) else None)"

definition rolling_mean :: "series \<Rightarrow> int \<Rightarrow> exn + series" where
  "rolling_mean xs window =
     (if window < 0 then Inl ValueError
      else Inr (map (rolling_mean_at (nat window) xs) [0..<length xs]))"

subsection \<open>\<open>ewm(span=window, adjust=False).mean()\<close>\<close>

text \<open>
  pandas rejects a span below 1 with ValueError and smooths with
  \<open>alpha = 1 / (1 + com)\<close>, \<open>com = (span - 1) / 2\<close>. Its loop carries the running
  average \<open>weighted\<close> and the weight \<open>old_wt\<close> of the past: a missing entry leaves the
  average as it is and ages the weight; an observation is averaged in with weight
  \<open>alpha\<close> and, since \<open>adjust\<close> is false, resets the weight to 1. An average is reported
  from the first observation on.
\<close>

fun ewm_loop :: "real \<Rightarrow> real option \<Rightarrow> real \<Rightarrow> series \<Rightarrow> series" where
  "ewm_loop alpha weighted old_wt [] = []"
| "ewm_loop alpha None old_wt (cur # rest) = cur # ewm_loop alpha cur old_wt rest"
| "ewm_loop alpha (Some avg) old_wt (None # rest) =
     Some avg # ewm_loop alpha (Some avg) (old_wt * (1 - alpha)) rest"
| "ewm_loop alpha (Some avg) old_wt (Some cur # rest) =
     (let aged = old_wt * (1 - alpha);
          avg' = (if avg \<noteq> cur then (aged * avg + alpha * cur) / (aged + alpha) else avg)
      in Some avg' # ewm_loop alpha (Some avg') 1 rest)"

definition ewm_mean :: "real \<Rightarrow> series \<Rightarrow> series" where
  "ewm_mean alpha xs = (case xs of [] \<Rightarrow> [] | x # rest \<Rightarrow> x # ewm_loop alpha x 1 rest)"

definition span_alpha :: "int \<Rightarrow> real" where
  "span_alpha w = 1 / (1 + (real_of_int w - 1) / 2)"

section \<open>Calendar dates\<close>

text \<open>
  A \<open>datetime.date\<close> is taken as its proleptic Gregorian ordinal: day 1 is 0001-01-01
  and the last date, 9999-12-31, is day 3652059. \<open>ord2ymd\<close> is the conversion of the
  standard library, with its tables of days before and in each month of a common year:
  it counts the whole cycles of 400, 100, 4 and 1 years before the day, and the last
  day of a cycle of 4 or 400 years is the 31st of December of a leap year.
\<close>

definition MAXORDINAL :: int where
  "MAXORDINAL = 3652059"

definition days_before_month :: "int \<Rightarrow> int" where
  "days_before_month m = [0, 0, 31, 59, 90, 120, 151, 181, 212, 243, 273, 304, 334] ! nat m"

definition days_in_month :: "int \<Rightarrow> int" where
  "days_in_month m = [0, 31, 28, 31, 30, 31, 30, 31, 31, 30, 31, 30, 31] ! nat m"

text \<open>
  The month and the day of the month from the day \<open>n\<close> of the year, counted from 0:
  an estimate of the month that is exact or one too large, corrected with the tables.
\<close>

definition month_and_day :: "bool \<Rightarrow> int \<Rightarrow> int \<times> int" where
  "month_and_day leapyear n =
     (let month = (n + 50) div 32;
          preceding = days_before_month month + (if 2 < month \<and> leapyear then 1 else 0)
      in if n < preceding
         then (let month' = month - 1;
                   preceding' = preceding
                     - (days_in_month month' + (if month' = 2 \<and> leapyear then 1 else 0))
               in (month', n - preceding' + 1))
         else (month, n - preceding + 1))"

definition ord2ymd :: "int \<Rightarrow> int \<times> int \<times> int" where
  "ord2ymd ordinal =
     (let n = ordinal - 1;
          n400 = n div 146097; r400 = n mod 146097;
          n100 = r400 div 36524; r100 = r400 mod 36524;
          n4 = r100 div 1461; r4 = r100 mod 1461;
          n1 = r4 div 365; r1 = r4 mod 365;
          year = n400 * 400 + 1 + n100 * 100 + n4 * 4 + n1
      in if n1 = 4 \<or> n100 = 4 then (year - 1, 12, 31)
         else
           (let leapyear = (n1 = 3 \<and> (n4 \<noteq> 24 \<or> n100 = 3))
            in case month_and_day leapyear r1 of (month, day) \<Rightarrow> (year, month, day)))"

text \<open>
  \<open>strftime('%Y-%m-%d')\<close>. Month and day are always two digits. The year is printed by
  the C library, which pads it to four digits on some platforms and prints a year below
  1000 with the digits it has on others; \<open>year_padded\<close> says which.
\<close>

definition digit_char :: "nat \<Rightarrow> char" where
  "digit_char d = ''0123456789'' ! d"

fun decimal :: "nat \<Rightarrow> string" where
  "decimal n = (if n < 10 then [digit_char n] else decimal (n div 10) @ [digit_char (n mod 10)])"

declare decimal.simps [simp del]

definition zero_pad :: "nat \<Rightarrow> string \<Rightarrow> string" where
  "zero_pad w s = replicate (w - length s) (CHR ''0'') @ s"

definition strftime_ymd :: "bool \<Rightarrow> int \<Rightarrow> string" where
  "strftime_ymd year_padded d =
     (case ord2ymd d of
        (y, m, dd) \<Rightarrow>
          (if year_padded then zero_pad 4 (decimal (nat y)) else decimal (nat y))
          @ ''-'' @ zero_pad 2 (decimal (nat m)) @ ''-'' @ zero_pad 2 (decimal (nat dd)))"

text \<open>The shape \<open>YYYY-MM-DD\<close>: ten characters, digits except for the two dashes.\<close>

definition is_digit :: "char \<Rightarrow> bool" where
  "is_digit c = (c \<in> set ''0123456789'')"

definition iso_date_shape :: "string \<Rightarrow> bool" where
  "iso_date_shape s =
     (length s = 10 \<and> s ! 4 = CHR ''-'' \<and> s ! 7 = CHR ''-''
      \<and> list_all is_digit (take 4 s) \<and> list_all is_digit (take 2 (drop 5 s))
      \<and> list_all is_digit (drop 8 s))"

section \<open>The function-based script \<open>fetch_plot_MA_EMA_GT.py\<close>\<close>

definition calculate_ema :: "series \<Rightarrow> int \<Rightarrow> exn + series" where
  "calculate_ema trend_data window =
     (if window < 1 then Inl ValueError else Inr (ewm_mean (span_alpha window) trend_data))"

text \<open>
  The three-way comparison of the trend sentiment, in the order of the
  \<open>if\<close>/\<open>elif\<close>/\<open>else\<close> chain of the source.
\<close>

definition sentiment_of :: "real option \<Rightarrow> real option \<Rightarrow> string" where
  "sentiment_of start_value end_value =
     (if gt_nan end_value start_value then ''Positive''
      else if lt_nan end_value start_value then ''Negative''
      else ''Neutral'')"

text \<open>
  \<open>trend_analysis\<close>: the start and end values are the first and last entries of the
  moving average as they are, missing or not.
\<close>

definition trend_analysis :: "series \<Rightarrow> int \<Rightarrow> exn + string" where
  "trend_analysis trend_data moving_average_window =
     (case rolling_mean trend_data moving_average_window of
        Inl e \<Rightarrow> Inl e
      | Inr trend_data_ma \<Rightarrow>
          (case iloc_first trend_data_ma of
             Inl e \<Rightarrow> Inl e
           | Inr start_value \<Rightarrow>
               (case iloc_last trend_data_ma of
                  Inl e \<Rightarrow> Inl e
                | Inr end_value \<Rightarrow> Inr (sentiment_of start_value end_value))))"

definition sentiment_of_change :: "fnum \<Rightarrow> string" where
  "sentiment_of_change percentage_change =
     (if fgt percentage_change (Fin 0) then ''Positive''
      else if flt percentage_change (Fin 0) then ''Negative''
      else ''Neutral'')"

text \<open>
  \<open>percentage_trend_analysis\<close>: the change from the first to the last raw value. The
  divisor is the first value as it is; nothing is checked before the division.
\<close>

definition percentage_change_of :: "real option \<Rightarrow> real option \<Rightarrow> fnum" where
  "percentage_change_of start_value end_value =
     fmul (fdiv (fsub (of_value end_value) (of_value start_value)) (of_value start_value))
          (Fin 100)"

definition percentage_trend_analysis :: "series \<Rightarrow> exn + fnum \<times> string" where
  "percentage_trend_analysis trend_data =
     (case iloc_first trend_data of
        Inl e \<Rightarrow> Inl e
      | Inr start_value \<Rightarrow>
          (case iloc_last trend_data of
             Inl e \<Rightarrow> Inl e
           | Inr end_value \<Rightarrow>
               (let percentage_change = percentage_change_of start_value end_value
                in Inr (percentage_change, sentiment_of_change percentage_change))))"

text \<open>
  \<open>get_timeframe\<close>: \<open>date.today()\<close> is the parameter \<open>today\<close>. \<open>timedelta(days=n)\<close>
  raises OverflowError beyond 999999999 days, and the subtraction raises OverflowError
  when the result is not a date.
\<close>

definition get_timeframe :: "bool \<Rightarrow> int \<Rightarrow> int \<Rightarrow> exn + string" where
  "get_timeframe year_padded today days_back =
     (let end_date = today
      in if 999999999 < \<bar>days_back\<bar> then Inl OverflowError
         else
           (let start_date = end_date - days_back
            in if start_date < 1 \<or> MAXORDINAL < start_date then Inl OverflowError
               else Inr (strftime_ymd year_padded start_date @ '' ''
                         @ strftime_ymd year_padded end_date)))"

section \<open>The function-based script \<open>merge_GT_OHLCV.py\<close>\<close>

subsection \<open>Tables\<close>

text \<open>
  A DataFrame is the list of its rows, in index order, and a row is a record of its
  columns. The interest table is the one the provider returns for the term the script
  queries: the date, the integer interest under the label \<open>Tesla stock\<close> that the source
  hard-codes, and the partial-day flag. The price table has the date and the five price
  and volume columns, each value finite or missing; the labels of these columns are
  kept beside the rows, where \<open>align_data\<close> rewrites them. A column that a later step adds
  (\<open>Trend_Percentage\<close>, \<open>VolumeNormalized\<close>) is \<open>None\<close> in a row of a table that does
  not have it yet. Dates are day numbers.
\<close>

record trend_row =
  date :: int
  Tesla_stock :: int
  isPartial :: bool
  Trend_Percentage :: "fnum option"

record ohlcv_row =
  Date :: int
  Close :: "real option"
  High :: "real option"
  Low :: "real option"
  Open :: "real option"
  Volume :: "real option"
  VolumeNormalized :: "fnum option"

type_synonym merged_row = "ohlcv_row \<times> trend_row"

subsection \<open>\<open>calculate_trend_percentage\<close>\<close>

text \<open>
  \<open>Series.pct_change()\<close> of an integer column: the first entry is NaN and every other
  entry is \<open>x[i] / x[i-1] - 1\<close>, so a zero before it gives an infinity or NaN.
\<close>

definition pct_change :: "int list \<Rightarrow> fnum list" where
  "pct_change xs =
     (case xs of
        [] \<Rightarrow> []
      | _ # rest \<Rightarrow>
          NaN # map2 (\<lambda>prev cur. fsub (fdiv (Fin (real_of_int cur)) (Fin (real_of_int prev))) (Fin 1))
                     xs rest)"

definition calculate_trend_percentage :: "trend_row list \<Rightarrow> trend_row list" where
  "calculate_trend_percentage trend_data =
     map2 (\<lambda>r p. r\<lparr>Trend_Percentage := Some (fmul p (Fin 100))\<rparr>)
          trend_data (pct_change (map Tesla_stock trend_data))"

subsection \<open>\<open>align_data\<close>\<close>

text \<open>
  \<open>pd.merge(stock_data, trend_data, on='Date', how='inner')\<close>: every pair of a price
  row and an interest row of the same date, in the order of the price rows.
\<close>

definition merge_inner :: "ohlcv_row list \<Rightarrow> trend_row list \<Rightarrow> merged_row list" where
  "merge_inner stock_data trend_data =
     concat (map (\<lambda>s. map (Pair s) (filter (\<lambda>t. date t = Date s) trend_data)) stock_data)"

text \<open>\<open>DataFrame.dropna()\<close> keeps the rows without a NaN in any column.\<close>

definition row_complete :: "merged_row \<Rightarrow> bool" where
  "row_complete r =
     (case r of
        (s, t) \<Rightarrow>
          Close s \<noteq> None \<and> High s \<noteq> None \<and> Low s \<noteq> None \<and> Open s \<noteq> None
          \<and> Volume s \<noteq> None \<and> VolumeNormalized s \<noteq> Some NaN
          \<and> Trend_Percentage t \<noteq> Some NaN)"

definition align_data :: "trend_row list \<Rightarrow> ohlcv_row list \<Rightarrow> merged_row list" where
  "align_data trend_data stock_data =
     (let merged_data = merge_inner stock_data trend_data
      in filter row_complete merged_data)"

text \<open>
  Before the join \<open>align_data\<close> rewrites the column labels of the price table. The
  table has the five value columns of \<open>ohlcv_row\<close> and its dates as index, named
  \<open>Date\<close>; its columns are labelled either by one level (\<open>Close\<close>) or by two, the field
  and the ticker (\<open>('Close', 'TSLA')\<close>), which is what the download returns.
  \<open>reset_index()\<close> puts the index before the columns, under the label \<open>Date\<close> or
  \<open>('Date', '')\<close>; the first \<open>stock_data['Date']\<close> finds it in both cases.
\<close>

datatype column_index = SingleLevel | TwoLevel string

datatype label = Name string | Levels "string list"

definition value_columns :: "string list" where
  "value_columns = [''Close'', ''High'', ''Low'', ''Open'', ''Volume'']"

definition reset_index_labels :: "column_index \<Rightarrow> label list" where
  "reset_index_labels columns =
     (case columns of
        SingleLevel \<Rightarrow> map Name (''Date'' # value_columns)
      | TwoLevel ticker \<Rightarrow> Levels [''Date'', ''''] # map (\<lambda>c. Levels [c, ticker]) value_columns)"

text \<open>
  \<open>'_'.join(col)\<close> joins the parts of a tuple, and the characters of a string: a
  one-level label \<open>Date\<close> becomes \<open>D_a_t_e\<close>.
\<close>

fun join :: "string \<Rightarrow> string list \<Rightarrow> string" where
  "join sep [] = []"
| "join sep [x] = x"
| "join sep (x # y # ys) = x @ sep @ join sep (y # ys)"

fun join_label :: "label \<Rightarrow> string" where
  "join_label (Name s) = join ''_'' (map (\<lambda>c. [c]) s)"
| "join_label (Levels parts) = join ''_'' parts"

text \<open>\<open>s.split('_')\<close>: the pieces between the separators, at least one.\<close>

fun split_on :: "char \<Rightarrow> string \<Rightarrow> string list" where
  "split_on sep [] = [[]]"
| "split_on sep (c # cs) =
     (if c = sep then [] # split_on sep cs
      else (case split_on sep cs of [] \<Rightarrow> [[c]] | w # ws \<Rightarrow> (c # w) # ws))"

text \<open>
  \<open>Index.str.replace(old, new)\<close> replaces every occurrence of \<open>old\<close>, from the left
  and without overlap: after a match the characters of the match are skipped. \<open>old\<close>
  is taken literally, which is the default of pandas from version 2 on.
\<close>

fun replace_from :: "nat \<Rightarrow> string \<Rightarrow> string \<Rightarrow> string \<Rightarrow> string" where
  "replace_from skip old new [] = []"
| "replace_from skip old new (c # cs) =
     (if 0 < skip then replace_from (skip - 1) old new cs
      else if old \<noteq> [] \<and> take (length old) (c # cs) = old
           then new @ replace_from (length old - 1) old new cs
      else c # replace_from 0 old new cs)"

definition str_replace :: "string \<Rightarrow> string \<Rightarrow> string \<Rightarrow> string" where
  "str_replace old new s = replace_from 0 old new s"

text \<open>
  The relabelling: join every label, take the second piece of the last joined label as
  the ticker symbol (IndexError when there is no second piece), remove \<open>_\<close> followed by
  the symbol from every label, and replace \<open>Date_\<close> by \<open>Date\<close>.
\<close>

definition relabel :: "label list \<Rightarrow> exn + string list" where
  "relabel columns =
     (let joined = map join_label columns
      in if joined = [] then Inl IndexError
         else (case split_on CHR ''_'' (last joined) of
                 _ # ticker_symbol # _ \<Rightarrow>
                   Inr (map (str_replace ''Date_'' ''Date'' \<circ> str_replace (''_'' @ ticker_symbol) '''')
                            joined)
               | _ \<Rightarrow> Inl IndexError))"

text \<open>
  \<open>align_data\<close> with the labels: after the relabelling \<open>stock_data['Date']\<close> raises
  KeyError when no column is labelled \<open>Date\<close>, and the conversion of its result to
  dates raises ValueError when several are; otherwise the tables are joined.
\<close>

definition align_data_labelled ::
  "trend_row list \<Rightarrow> column_index \<Rightarrow> ohlcv_row list \<Rightarrow> exn + merged_row list" where
  "align_data_labelled trend_data columns stock_data =
     (case relabel (reset_index_labels columns) of
        Inl e \<Rightarrow> Inl e
      | Inr names \<Rightarrow>
          (if ''Date'' \<notin> set names then Inl KeyError
           else if length (filter (\<lambda>n. n = ''Date'') names) \<noteq> 1 then Inl ValueError
           else Inr (align_data trend_data stock_data)))"

subsection \<open>\<open>normalize_volume\<close>\<close>






subsection \<open>\<open>calculate_correlation\<close>\<close>

text \<open>
  \<open>DataFrame.corr()\<close>: the Pearson coefficient of every pair of columns over the rows
  where both entries are finite (\<open>min_periods = 1\<close>): pandas masks the entries with
  \<open>isfinite\<close>, so that it skips an infinity as it skips NaN. It accumulates the sums of
  squared deviations and of their products over these rows and divides by the root of
  the product of the two sums of squares, clipping the quotient to the range from -1 to
  1; no such row or a zero divisor gives NaN. The matrix is keyed by the two column
  labels; a label that is not a column has no entry.
\<close>

definition complete_pairs :: "fnum list \<Rightarrow> fnum list \<Rightarrow> (fnum \<times> fnum) list" where
  "complete_pairs xs ys = filter (\<lambda>(a, b). is_finite a \<and> is_finite b) (zip xs ys)"

definition mean_of :: "real list \<Rightarrow> real" where
  "mean_of xs = sum_list xs / real (length xs)"

definition ssqdm :: "real list \<Rightarrow> real" where
  "ssqdm xs = (\<Sum>x\<leftarrow>xs. (x - mean_of xs) * (x - mean_of xs))"

definition covxy :: "real list \<Rightarrow> real list \<Rightarrow> real" where
  "covxy xs ys = (\<Sum>(x, y)\<leftarrow>zip xs ys. (x - mean_of xs) * (y - mean_of ys))"

definition clip_unit :: "real \<Rightarrow> real" where
  "clip_unit val = (if 1 < val then 1 else if val < - 1 then - 1 else val)"

definition pearson :: "fnum list \<Rightarrow> fnum list \<Rightarrow> fnum" where
  "pearson xs ys =
     (let ps = complete_pairs xs ys
      in if ps = [] then NaN
         else
           (let as = map (fin_val \<circ> fst) ps; bs = map (fin_val \<circ> snd) ps;
                divisor = sqrt (ssqdm as * ssqdm bs)
            in if divisor \<noteq> 0 then Fin (clip_unit (covxy as bs / divisor)) else NaN))"

text \<open>
  A column varies when two of its finite entries differ: the columns whose sum of
  squared deviations is not zero.
\<close>

definition varies :: "fnum list \<Rightarrow> bool" where
  "varies col = (let vs = filter is_finite col in \<exists>a\<in>set vs. \<exists>b\<in>set vs. a \<noteq> b)"

definition of_bool_value :: "bool \<Rightarrow> fnum" where
  "of_bool_value b = Fin (if b then 1 else 0)"

definition optional_column :: "string \<Rightarrow> fnum option list \<Rightarrow> (string \<times> fnum list) list" where
  "optional_column label col = (if list_all (\<lambda>v. v \<noteq> None) col then [(label, map the col)] else [])"

definition numeric_columns :: "merged_row list \<Rightarrow> (string \<times> fnum list) list" where
  "numeric_columns merged_data =
     [(''Close'', map (of_value \<circ> Close \<circ> fst) merged_data),
      (''High'', map (of_value \<circ> High \<circ> fst) merged_data),
      (''Low'', map (of_value \<circ> Low \<circ> fst) merged_data),
      (''Open'', map (of_value \<circ> Open \<circ> fst) merged_data),
      (''Volume'', map (of_value \<circ> Volume \<circ> fst) merged_data),
      (''Tesla stock'', map (Fin \<circ> real_of_int \<circ> Tesla_stock \<circ> snd) merged_data),
      (''isPartial'', map (of_bool_value \<circ> isPartial \<circ> snd) merged_data)]
     @ optional_column ''Trend_Percentage'' (map (Trend_Percentage \<circ> snd) merged_data)
     @ optional_column ''VolumeNormalized'' (map (VolumeNormalized \<circ> fst) merged_data)"

definition corr :: "(string \<times> fnum list) list \<Rightarrow> string \<times> string \<Rightarrow> fnum option" where
  "corr cols = (\<lambda>(a, b).
     (case (map_of cols a, map_of cols b) of
        (Some x, Some y) \<Rightarrow> Some (pearson x y)
      | _ \<Rightarrow> None))"

definition calculate_correlation :: "merged_row list \<Rightarrow> string \<times> string \<Rightarrow> fnum option" where
  "calculate_correlation merged_data = corr (numeric_columns merged_data)"

section \<open>The class of \<open>fetch_plot_MA_EMA_GT_OOP.py\<close>\<close>

text \<open>
  \<open>trend_data\<close> is \<open>None\<close> until the download has run; afterwards it is a DataFrame,
  here a map from column label to column. Subscripting \<open>None\<close> raises TypeError, a
  missing column raises KeyError.
\<close>

record StockTrendAnalysis =
  search_term :: string
  timeframe :: string
  geo :: string
  gprop :: string
  trend_data :: "(string \<rightharpoonup> series) option"

definition column_of :: "StockTrendAnalysis \<Rightarrow> exn + series" where
  "column_of self =
     (case trend_data self of
        None \<Rightarrow> Inl TypeError
      | Some df \<Rightarrow> (case df (search_term self) of None \<Rightarrow> Inl KeyError | Some col \<Rightarrow> Inr col))"

text \<open>The method takes the series as an argument and does not read the object.\<close>

definition calculate_ema_oop :: "StockTrendAnalysis \<Rightarrow> series \<Rightarrow> int \<Rightarrow> exn + series" where
  "calculate_ema_oop self data window =
     (if window < 1 then Inl ValueError else Inr (ewm_mean (span_alpha window) data))"

text \<open>
  \<open>StockTrendAnalysis.trend_analysis\<close>: the start and end values are the first and last
  entries of the moving average after \<open>dropna()\<close>.
\<close>

definition trend_analysis_oop :: "StockTrendAnalysis \<Rightarrow> int \<Rightarrow> exn + string" where
  "trend_analysis_oop self moving_average_window =
     (case column_of self of
        Inl e \<Rightarrow> Inl e
      | Inr col \<Rightarrow>
          (case rolling_mean col moving_average_window of
             Inl e \<Rightarrow> Inl e
           | Inr trend_data_ma \<Rightarrow>
               (case iloc_first (dropna trend_data_ma) of
                  Inl e \<Rightarrow> Inl e
                | Inr start_value \<Rightarrow>
                    (case iloc_last (dropna trend_data_ma) of
                       Inl e \<Rightarrow> Inl e
                     | Inr end_value \<Rightarrow> Inr (sentiment_of start_value end_value)))))"

definition percentage_trend_analysis_oop :: "StockTrendAnalysis \<Rightarrow> exn + fnum \<times> string" where
  "percentage_trend_analysis_oop self =
     (case column_of self of
        Inl e \<Rightarrow> Inl e
      | Inr col \<Rightarrow>
          (case iloc_first col of
             Inl e \<Rightarrow> Inl e
           | Inr start_value \<Rightarrow>
               (case iloc_last col of
                  Inl e \<Rightarrow> Inl e
                | Inr end_value \<Rightarrow>
                    (let percentage_change = percentage_change_of start_value end_value
                     in Inr (percentage_change, sentiment_of_change percentage_change)))))"

text \<open>The static method has the body of the function.\<close>

definition get_timeframe_oop :: "bool \<Rightarrow> int \<Rightarrow> int \<Rightarrow> exn + string" where
  "get_timeframe_oop year_padded today days_back =
     (let end_date = today
      in if 999999999 < \<bar>days_back\<bar> then Inl OverflowError
         else
           (let start_date = end_date - days_back
            in if start_date < 1 \<or> MAXORDINAL < start_date then Inl OverflowError
               else Inr (strftime_ymd year_padded start_date @ '' ''
                         @ strftime_ymd year_padded end_date)))"

text \<open>An object after the download, its frame holding the column \<open>col\<close> of the search term.\<close>

definition loaded :: "string \<Rightarrow> series \<Rightarrow> StockTrendAnalysis" where
  "loaded term col =
     \<lparr>search_term = term, timeframe = ''today 7-d'', geo = '''', gprop = '''',
      trend_data = Some [term \<mapsto> col]\<rparr>"

section \<open>The class of \<open>merge_GT_OHLCV_OOP.py\<close>\<close>

text \<open>
  The three tables are \<open>None\<close> until the method that sets them has run. A method
  returns the object as it leaves it, with its result. Reading an attribute of \<open>None\<close>
  raises AttributeError, subscripting it TypeError.
\<close>

record StockTrendAnalysis_merge =
  search_term :: string
  timeframe :: string
  geo :: string
  gprop :: string
  trend_data :: "trend_row list option"
  stock_data :: "ohlcv_row list option"
  merged_data :: "merged_row list option"

definition calculate_trend_percentage_oop ::
  "StockTrendAnalysis_merge \<Rightarrow> exn + StockTrendAnalysis_merge \<times> trend_row list" where
  "calculate_trend_percentage_oop self =
     (case trend_data self of
        None \<Rightarrow> Inl TypeError
      | Some t \<Rightarrow>
          (let t' = map2 (\<lambda>r p. r\<lparr>Trend_Percentage := Some (fmul p (Fin 100))\<rparr>)
                         t (pct_change (map Tesla_stock t))
           in Inr (self\<lparr>trend_data := Some t'\<rparr>, t')))"

text \<open>
  The method of the class keeps the first level of the labels
  (\<open>columns.get_level_values(0)\<close>), which is the list of the six field names for either
  kind of labels, so that its \<open>stock_data['Date']\<close> finds the dates and the method depends
  on the rows alone.
\<close>

definition get_level_values :: "column_index \<Rightarrow> string list" where
  "get_level_values columns =
     (case columns of
        SingleLevel \<Rightarrow> ''Date'' # value_columns
      | TwoLevel ticker \<Rightarrow> map hd ([''Date'', ''''] # map (\<lambda>c. [c, ticker]) value_columns))"

definition align_data_oop ::
  "StockTrendAnalysis_merge \<Rightarrow> exn + StockTrendAnalysis_merge \<times> merged_row list" where
  "align_data_oop self =
     (case stock_data self of
        None \<Rightarrow> Inl AttributeError
      | Some s \<Rightarrow>
          (case trend_data self of
             None \<Rightarrow> Inl AttributeError
           | Some t \<Rightarrow>
               (let m = filter row_complete (merge_inner s t)
                in Inr (self\<lparr>merged_data := Some m\<rparr>, m))))"


definition calculate_correlation_oop ::
  "StockTrendAnalysis_merge \<Rightarrow> exn + (string \<times> string \<Rightarrow> fnum option)" where
  "calculate_correlation_oop self =
     (case merged_data self of
        None \<Rightarrow> Inl AttributeError
      | Some m \<Rightarrow> Inr (corr (numeric_columns m)))"

text \<open>The object of the example run, before any download.\<close>

definition new_analysis :: StockTrendAnalysis_merge where
  "new_analysis =
     \<lparr>search_term = ''Tesla stock'', timeframe = ''today 3-m'', geo = '''', gprop = '''',
      trend_data = None, stock_data = None, merged_data = None\<rparr>"

section \<open>The specification's wording, for comparison\<close>

text \<open>
  The recursion of the exponential moving average as the specification words it, over
  a series of present values: \<open>EMA[0] = value[0]\<close> and
  \<open>EMA[t] = alpha * value[t] + (1 - alpha) * EMA[t-1]\<close>.
\<close>

fun ema_spec :: "real \<Rightarrow> real list \<Rightarrow> nat \<Rightarrow> real" where
  "ema_spec alpha v 0 = v ! 0"
| "ema_spec alpha v (Suc t) = alpha * v ! Suc t + (1 - alpha) * ema_spec alpha v t"

text \<open>
  The trend percentage as the specification asks for it: the percent change of the
  interest column taken over the rows of the join.
\<close>

definition trend_percentage_after_join :: "trend_row list \<Rightarrow> ohlcv_row list \<Rightarrow> fnum list" where
  "trend_percentage_after_join ts ss =
     map (\<lambda>p. fmul p (Fin 100)) (pct_change (map (Tesla_stock \<circ> snd) (merge_inner ss ts)))"

section \<open>Example rows\<close>

text \<open>
  An interest row of a complete day, before the trend percentage is computed, and a
  price row whose four prices are the same, before the volume is normalized.
\<close>

definition interest_row :: "int \<Rightarrow> int \<Rightarrow> trend_row" where
  "interest_row d v = \<lparr>date = d, Tesla_stock = v, isPartial = False, Trend_Percentage = None\<rparr>"

definition price_row :: "int \<Rightarrow> real \<Rightarrow> real \<Rightarrow> ohlcv_row" where
  "price_row d c v =
     \<lparr>Date = d, Close = Some c, High = Some c, Low = Some c, Open = Some c,
      Volume = Some v, VolumeNormalized = None\<rparr>"

text \<open>
  Interest on three consecutive days, and prices for the first and third of them, for
  the last two, for two later days, and for the last two with the same volume.
\<close>

definition example_interest :: "trend_row list" where
  "example_interest = [interest_row 1 10, interest_row 2 20, interest_row 3 40]"

definition example_prices :: "ohlcv_row list" where
  "example_prices = [price_row 1 5 7, price_row 3 6 8]"

definition later_prices :: "ohlcv_row list" where
  "later_prices = [price_row 2 5 7, price_row 3 6 8]"

definition disjoint_prices :: "ohlcv_row list" where
  "disjoint_prices = [price_row 4 5 7, price_row 5 6 8]"

definition flat_prices :: "ohlcv_row list" where
  "flat_prices = [price_row 2 5 7, price_row 3 6 7]"

text \<open>
  Interest that rises from 0, so that its first percent change is an infinity, with
  prices from the second day on.
\<close>

definition spike_interest :: "trend_row list" where
  "spike_interest = [interest_row 1 0, interest_row 2 5, interest_row 3 10, interest_row 4 5]"

definition spike_prices :: "ohlcv_row list" where
  "spike_prices = [price_row 2 5 7, price_row 3 6 8, price_row 4 7 9]"

text \<open>The object of the class after the two downloads.\<close>

definition with_tables :: "trend_row list \<Rightarrow> ohlcv_row list \<Rightarrow> StockTrendAnalysis_merge" where
  "with_tables ts ss = new_analysis\<lparr>trend_data := Some ts, stock_data := Some ss\<rparr>"

section \<open>Facts about the moving averages\<close>

lemma rolling_mean_at_start_missing: "2 \<le> w \<Longrightarrow> rolling_mean_at w xs 0 = None"
proof -
  assume w: "2 \<le> w"
  have "length (dropna (rolling_window w xs 0)) \<le> length (rolling_window w xs 0)"
    unfolding dropna_def by (rule length_filter_le)
  also have "\<dots> \<le> 1"
    using w by (simp add: rolling_window_def)
  finally show ?thesis using w by (simp add: rolling_mean_at_def Let_def)
qed

lemma ewm_loop_length: "length (ewm_loop alpha w old xs) = length xs"
  by (induction alpha w old xs rule: ewm_loop.induct) (simp_all add: Let_def)

lemma ewm_mean_length: "length (ewm_mean alpha xs) = length xs"
  by (cases xs) (simp_all add: ewm_mean_def ewm_loop_length)

lemma ewm_step:
  "(if avg \<noteq> cur then ((1 - alpha) * avg + alpha * cur) / ((1 - alpha) + alpha) else avg)
     = alpha * cur + (1 - alpha) * (avg::real)"
  by (simp add: algebra_simps)

lemma ewm_loop_nth:
  "t < length ys \<Longrightarrow>
   (Some e # ewm_loop alpha (Some e) 1 (map Some ys)) ! Suc t =
     Some (alpha * ys ! t
           + (1 - alpha) * the ((Some e # ewm_loop alpha (Some e) 1 (map Some ys)) ! t))"
proof (induction ys arbitrary: e t)
  case Nil
  then show ?case by simp
next
  case (Cons y ys)
  show ?case
  proof (cases t)
    case 0
    then show ?thesis using ewm_step [of e y alpha] by (simp add: Let_def)
  next
    case (Suc k)
    with Cons.prems have "k < length ys" by simp
    from Cons.IH [OF this] Suc show ?thesis by (simp add: Let_def)
  qed
qed

lemma ewm_mean_nth:
  "t < length vs \<Longrightarrow> ewm_mean alpha (map Some vs) ! t = Some (ema_spec alpha vs t)"
proof (induction t)
  case 0
  then show ?case by (cases vs) (simp_all add: ewm_mean_def)
next
  case (Suc t)
  then obtain v rest where vs: "vs = v # rest" by (cases vs) auto
  with Suc.prems have t: "t < length rest" by simp
  have prev: "ewm_mean alpha (map Some vs) ! t = Some (ema_spec alpha vs t)"
    using Suc by simp
  have "ewm_mean alpha (map Some vs) ! Suc t =
          Some (alpha * rest ! t + (1 - alpha) * the (ewm_mean alpha (map Some vs) ! t))"
    using ewm_loop_nth [OF t, of v alpha] by (simp add: ewm_mean_def vs)
  also have "the (ewm_mean alpha (map Some vs) ! t) = ema_spec alpha vs t"
    by (simp add: prev)
  finally show ?case by (simp add: vs)
qed

lemma span_alpha_eq: "1 \<le> w \<Longrightarrow> span_alpha w = 2 / (real_of_int w + 1)"
  by (simp add: span_alpha_def field_simps)

section \<open>Facts about the percentage change\<close>

lemma percentage_change_of_finite:
  "a \<noteq> 0 \<Longrightarrow> percentage_change_of (Some a) (Some b) = Fin ((b - a) / a * 100)"
  by (simp add: percentage_change_of_def of_value_def fsub_def fadd_def fdiv_def fmul_def)

lemma percentage_change_of_zero: "\<not> is_finite (percentage_change_of (Some 0) e)"
  by (cases e)
     (auto simp add: percentage_change_of_def of_value_def fsub_def fadd_def fdiv_def fmul_def
        inf_of_sign_def)

lemma sentiment_of_change_Fin:
  "sentiment_of_change (Fin p) =
     (if 0 < p then ''Positive'' else if p < 0 then ''Negative'' else ''Neutral'')"
  by (simp add: sentiment_of_change_def fgt_def)

lemma ends_of_series:
  "xs \<noteq> [] \<Longrightarrow> iloc_first xs = Inr (hd xs) \<and> iloc_last xs = Inr (last xs)"
  by (cases xs) (simp_all add: iloc_first_def iloc_last_def)

section \<open>The trend sentiment of the two scripts\<close>

text \<open>
  With a window of two or more the first entry of the moving average is missing, so the
  function-based classifier compares with NaN and answers Neutral for every non-empty
  series, whatever its values.
\<close>

lemma trend_analysis_neutral:
  assumes "2 \<le> w" and "xs \<noteq> []"
  shows "trend_analysis xs w = Inr ''Neutral''"
proof -
  obtain x rest where xs: "xs = x # rest" using assms(2) by (cases xs) auto
  have upt: "[0..<length xs] = 0 # [1..<length xs]"
    using xs by (simp add: upt_rec)
  have ma: "rolling_mean xs w = Inr (None # map (rolling_mean_at (nat w) xs) [1..<length xs])"
    using assms(1) rolling_mean_at_start_missing [of "nat w" xs]
    by (simp add: rolling_mean_def upt)
  show ?thesis
    by (simp add: trend_analysis_def ma iloc_first_def iloc_last_def sentiment_of_def
        gt_nan_def lt_nan_def split: option.splits)
qed

text \<open>
  The class-based classifier compares the first and last valid values of the moving
  average, as its comment says.
\<close>

lemma trend_analysis_oop_classifies:
  assumes "column_of self = Inr col" and "rolling_mean col w = Inr ma"
    and "dropna ma = Some a # rest" and "last (Some a # rest) = Some b"
  shows "trend_analysis_oop self w =
           Inr (if a < b then ''Positive'' else if b < a then ''Negative'' else ''Neutral'')"
  using assms
  by (simp add: trend_analysis_oop_def iloc_first_def iloc_last_def sentiment_of_def
      gt_nan_def lt_nan_def)

lemma rolling_mean_12345:
  "rolling_mean [Some 1, Some 2, Some 3, Some 4, Some 5] 3
     = Inr [None, None, Some 2, Some 3, Some 4]"
  by (simp add: rolling_mean_def rolling_mean_at_def rolling_window_def dropna_def upt_rec)

lemma rolling_mean_13255:
  "rolling_mean [Some 1, Some 3, Some 2, Some 5, Some 5] 3
     = Inr [None, None, Some 2, Some (10 / 3), Some 4]"
  by (simp add: rolling_mean_def rolling_mean_at_def rolling_window_def dropna_def upt_rec)

text \<open>
  Claim C3: the function-based \<open>trend_analysis\<close> and the class-based
  \<open>StockTrendAnalysis.trend_analysis\<close> return the same sentiment on the same series and
  window. They do not: on the series 1, 2, 3, 4, 5 with the default window 3 the
  function compares the missing first entry of the moving average with 4 and returns
  Neutral, the method drops the missing entries, compares 2 with 4 and returns Positive.
\<close>

theorem trend_analysis_variants_differ:
  "trend_analysis [Some 1, Some 2, Some 3, Some 4, Some 5] 3 = Inr ''Neutral''
   \<and> trend_analysis_oop (loaded ''Tesla stock'' [Some 1, Some 2, Some 3, Some 4, Some 5]) 3
       = Inr ''Positive''"
  by (simp add: trend_analysis_def trend_analysis_oop_def column_of_def loaded_def
      rolling_mean_12345 dropna_def iloc_first_def iloc_last_def sentiment_of_def
      gt_nan_def lt_nan_def)

text \<open>
  Claim C4: the classifier returns Positive when the last valid value of the moving
  average is above the first valid one, Negative when below, Neutral when equal; a
  moving average with first valid value 2 and last valid value 4 is Positive. The
  series 1, 3, 2, 5, 5 has the moving average NaN, NaN, 2, 10/3, 4 for the window 3:
  its first valid value is 2 and its last is 4, and the function-based
  \<open>trend_analysis\<close> returns Neutral.
\<close>

theorem trend_analysis_misses_valid_values:
  "rolling_mean [Some 1, Some 3, Some 2, Some 5, Some 5] 3
     = Inr [None, None, Some 2, Some (10 / 3), Some 4]
   \<and> iloc_first (dropna [None, None, Some 2, Some (10 / 3), Some 4]) = Inr (Some 2)
   \<and> iloc_last (dropna [None, None, Some 2, Some (10 / 3), Some 4]) = Inr (Some 4)
   \<and> trend_analysis [Some 1, Some 3, Some 2, Some 5, Some 5] 3 = Inr ''Neutral''"
  by (simp add: trend_analysis_def rolling_mean_13255 dropna_def iloc_first_def iloc_last_def
      sentiment_of_def gt_nan_def lt_nan_def)

section \<open>The percentage trend\<close>

text \<open>
  Claim C6: for a series of at least two elements with a nonzero first element,
  \<open>percentage_trend_analysis\<close> returns the pair of \<open>((last - first) / first) * 100\<close>
  and the sentiment, Positive when the change is above 0, Negative when below, Neutral
  when 0; 100, 90 gives -10.0 and Negative, and 100, 100 gives 0.0 and Neutral. It
  holds of every non-empty series whose first and last values are present, and the
  method of the class returns what the function returns on the object's column.
\<close>

theorem percentage_trend_analysis_value:
  assumes "xs \<noteq> []" and "hd xs = Some a" and "a \<noteq> 0" and "last xs = Some b"
    and "column_of self = Inr xs"
  shows "percentage_trend_analysis xs =
           Inr (Fin ((b - a) / a * 100),
                if 0 < (b - a) / a * 100 then ''Positive''
                else if (b - a) / a * 100 < 0 then ''Negative'' else ''Neutral'')
       \<and> percentage_trend_analysis_oop self = percentage_trend_analysis xs"
  using assms ends_of_series [of xs]
  by (simp add: percentage_trend_analysis_def percentage_trend_analysis_oop_def
      percentage_change_of_finite sentiment_of_change_Fin)

theorem percentage_trend_analysis_value_witness:
  "percentage_trend_analysis [Some 100, Some 90] = Inr (Fin (- 10), ''Negative'')
   \<and> percentage_trend_analysis_oop (loaded ''Tesla stock'' [Some 100, Some 90])
       = Inr (Fin (- 10), ''Negative'')
   \<and> percentage_trend_analysis [Some 100, Some 100] = Inr (Fin 0, ''Neutral'')
   \<and> percentage_trend_analysis_oop (loaded ''Tesla stock'' [Some 100, Some 100])
       = Inr (Fin 0, ''Neutral'')"
  using percentage_trend_analysis_value
          [of "[Some 100, Some 90]" 100 90 "loaded ''Tesla stock'' [Some 100, Some 90]"]
        percentage_trend_analysis_value
          [of "[Some 100, Some 100]" 100 100 "loaded ''Tesla stock'' [Some 100, Some 100]"]
  by (simp add: column_of_def loaded_def)

text \<open>
  Claim C10: \<open>percentage_trend_analysis\<close> divides by the first element with no guard.
  On every non-empty series with a present first value \<open>a\<close> it returns, never raising,
  the change computed with the divisor \<open>a\<close>: the finite number when \<open>a\<close> is nonzero and
  the last value is present, the outcome of the division by zero, an infinity or NaN,
  when \<open>a\<close> is 0. The method of the class does the same.
\<close>

theorem percentage_trend_analysis_unguarded:
  assumes "xs \<noteq> []" and "hd xs = Some a" and "column_of self = Inr xs"
  shows "\<exists>p. percentage_trend_analysis xs = Inr (p, sentiment_of_change p)
           \<and> percentage_trend_analysis_oop self = Inr (p, sentiment_of_change p)
           \<and> p = fmul (fdiv (fsub (of_value (last xs)) (Fin a)) (Fin a)) (Fin 100)
           \<and> (a \<noteq> 0 \<longrightarrow> (\<forall>b. last xs = Some b \<longrightarrow> p = Fin ((b - a) / a * 100)))
           \<and> (a = 0 \<longrightarrow> \<not> is_finite p)"
proof -
  let ?p = "percentage_change_of (Some a) (last xs)"
  have "percentage_trend_analysis xs = Inr (?p, sentiment_of_change ?p)"
    using assms ends_of_series [of xs] by (simp add: percentage_trend_analysis_def Let_def)
  moreover have "percentage_trend_analysis_oop self = Inr (?p, sentiment_of_change ?p)"
    using assms ends_of_series [of xs]
    by (simp add: percentage_trend_analysis_oop_def Let_def)
  moreover have "?p = fmul (fdiv (fsub (of_value (last xs)) (Fin a)) (Fin a)) (Fin 100)"
    by (simp add: percentage_change_of_def of_value_def)
  moreover have "a \<noteq> 0 \<longrightarrow> (\<forall>b. last xs = Some b \<longrightarrow> ?p = Fin ((b - a) / a * 100))"
    by (simp add: percentage_change_of_finite)
  moreover have "a = 0 \<longrightarrow> \<not> is_finite ?p"
    by (simp add: percentage_change_of_zero)
  ultimately show ?thesis by blast
qed

theorem percentage_trend_analysis_unguarded_witness:
  "percentage_trend_analysis [Some 0, Some 90] = Inr (PInf, ''Positive'')
   \<and> percentage_trend_analysis_oop (loaded ''Tesla stock'' [Some 0, Some 90])
       = Inr (PInf, ''Positive'')
   \<and> percentage_trend_analysis [Some 50, Some 75] = Inr (Fin 50, ''Positive'')"
  using percentage_trend_analysis_unguarded
          [of "[Some 0, Some 90]" 0 "loaded ''Tesla stock'' [Some 0, Some 90]"]
        percentage_trend_analysis_unguarded
          [of "[Some 50, Some 75]" 50 "loaded ''Tesla stock'' [Some 50, Some 75]"]
  by (simp add: column_of_def loaded_def of_value_def fsub_def fadd_def fdiv_def fmul_def
      inf_of_sign_def sentiment_of_change_def fgt_def)

section \<open>Facts about the trend percentage and the join\<close>

lemma pct_change_length: "length (pct_change xs) = length xs"
  by (cases xs) (simp_all add: pct_change_def)

lemma pct_change_first: "xs \<noteq> [] \<Longrightarrow> pct_change xs ! 0 = NaN"
  by (cases xs) (simp_all add: pct_change_def)

lemma pct_change_nth:
  "0 < i \<Longrightarrow> i < length xs \<Longrightarrow>
   pct_change xs ! i
     = fsub (fdiv (Fin (real_of_int (xs ! i))) (Fin (real_of_int (xs ! (i - 1))))) (Fin 1)"
proof -
  assume i: "0 < i" "i < length xs"
  then obtain x rest where xs: "xs = x # rest" by (cases xs) auto
  obtain j where j: "i = Suc j" using i(1) by (cases i) auto
  have "j < length rest" using i(2) xs j by simp
  then show ?thesis
    by (simp add: pct_change_def xs j nth_Cons')
qed

lemma percent_formula:
  "prev \<noteq> 0 \<Longrightarrow>
   fmul (fsub (fdiv (Fin cur) (Fin prev)) (Fin 1)) (Fin 100) = Fin ((cur - prev) / prev * 100)"
  by (simp add: fmul_def fsub_def fadd_def fdiv_def field_simps)

lemma calculate_trend_percentage_length:
  "length (calculate_trend_percentage ts) = length ts"
  by (simp add: calculate_trend_percentage_def pct_change_length)

lemma calculate_trend_percentage_nth:
  "i < length ts \<Longrightarrow>
   calculate_trend_percentage ts ! i
     = (ts ! i)\<lparr>Trend_Percentage := Some (fmul (pct_change (map Tesla_stock ts) ! i) (Fin 100))\<rparr>"
  by (simp add: calculate_trend_percentage_def pct_change_length)

lemma merge_inner_member:
  "(s, t) \<in> set (merge_inner ss ts) \<longleftrightarrow> s \<in> set ss \<and> t \<in> set ts \<and> date t = Date s"
  by (auto simp add: merge_inner_def)

lemma align_data_member:
  "(s, t) \<in> set (align_data ts ss)
     \<longleftrightarrow> s \<in> set ss \<and> t \<in> set ts \<and> date t = Date s \<and> row_complete (s, t)"
  by (auto simp add: align_data_def merge_inner_member)

lemma align_data_disjoint:
  assumes "set (map date ts) \<inter> set (map Date ss) = {}"
  shows "align_data ts ss = []"
proof (cases "align_data ts ss")
  case Nil
  then show ?thesis .
next
  case (Cons p rest)
  obtain s t where p: "p = (s, t)" by (cases p)
  have "(s, t) \<in> set (align_data ts ss)" by (simp add: Cons p)
  then have "s \<in> set ss" "t \<in> set ts" "date t = Date s"
    by (simp_all add: align_data_member)
  then have "Date s \<in> set (map date ts) \<inter> set (map Date ss)" by force
  with assms show ?thesis by simp
qed

section \<open>Facts about the example tables\<close>

lemma oop_pipeline:
  "\<exists>s1 s2. calculate_trend_percentage_oop (with_tables ts ss)
              = Inr (s1, calculate_trend_percentage ts)
           \<and> align_data_oop s1 = Inr (s2, align_data (calculate_trend_percentage ts) ss)"
  by (simp add: calculate_trend_percentage_oop_def align_data_oop_def with_tables_def
      calculate_trend_percentage_def align_data_def Let_def)

lemmas example_defs = example_interest_def example_prices_def later_prices_def
  disjoint_prices_def flat_prices_def interest_row_def price_row_def with_tables_def
  new_analysis_def

lemma example_merged:
  "align_data (calculate_trend_percentage example_interest) later_prices
     = [(price_row 2 5 7, (interest_row 2 20)\<lparr>Trend_Percentage := Some (Fin 100)\<rparr>),
        (price_row 3 6 8, (interest_row 3 40)\<lparr>Trend_Percentage := Some (Fin 100)\<rparr>)]"
  by (simp add: example_defs align_data_def calculate_trend_percentage_def pct_change_def
      merge_inner_def row_complete_def fmul_def fsub_def fadd_def fdiv_def)

section \<open>The trend percentage of the merged table\<close>

text \<open>
  Claim C1: the merged table's trend percentage is the percent change of the interest
  column over the rows of the join, each row against the joined row before it, and the
  first joined row has none. Both scripts compute the column on the interest table and
  join afterwards. With interest 10, 20, 40 on days 1, 2, 3 and prices on days 1 and 3,
  the merged table has the one row of day 3 with 100 (40 against 20, the day before in
  the interest table); over the joined rows the change would be 300 (40 against 10), and
  the row of day 1, whose percentage is missing, has been dropped.
\<close>

theorem trend_percentage_after_join_refuted:
  "map (Trend_Percentage \<circ> snd)
       (align_data (calculate_trend_percentage example_interest) example_prices)
     = [Some (Fin 100)]
   \<and> trend_percentage_after_join example_interest example_prices = [NaN, Fin 300]"
  by (simp add: example_defs align_data_def calculate_trend_percentage_def pct_change_def
      merge_inner_def row_complete_def trend_percentage_after_join_def
      fmul_def fsub_def fadd_def fdiv_def)

text \<open>
  Claim C1 as the code has it: every row of the merged table carries the date and the
  interest of a row \<open>i \<ge> 1\<close> of the interest table, and its trend percentage is
  \<open>(interest[i] / interest[i-1] - 1) * 100\<close> over the interest table as downloaded,
  which is \<open>(interest[i] - interest[i-1]) / interest[i-1] * 100\<close> when the earlier
  interest is not zero. No row of the merged table has a missing trend percentage. The
  methods of the class build the same table.
\<close>

theorem trend_percentage_before_join:
  assumes "(s, t) \<in> set (align_data (calculate_trend_percentage ts) ss)"
  shows "(\<exists>i. 0 < i \<and> i < length ts
            \<and> Date s = date (ts ! i) \<and> Tesla_stock t = Tesla_stock (ts ! i)
            \<and> Trend_Percentage t
                = Some (fmul (fsub (fdiv (Fin (real_of_int (Tesla_stock (ts ! i))))
                                         (Fin (real_of_int (Tesla_stock (ts ! (i - 1))))))
                                   (Fin 1)) (Fin 100))
            \<and> Trend_Percentage t \<noteq> Some NaN
            \<and> (Tesla_stock (ts ! (i - 1)) \<noteq> 0 \<longrightarrow>
                 Trend_Percentage t
                   = Some (Fin ((real_of_int (Tesla_stock (ts ! i))
                                  - real_of_int (Tesla_stock (ts ! (i - 1))))
                                / real_of_int (Tesla_stock (ts ! (i - 1))) * 100))))
       \<and> (\<exists>s1 s2. calculate_trend_percentage_oop (with_tables ts ss)
                      = Inr (s1, calculate_trend_percentage ts)
                   \<and> align_data_oop s1
                      = Inr (s2, align_data (calculate_trend_percentage ts) ss))"
proof -
  let ?ts' = "calculate_trend_percentage ts"
  from assms have t: "t \<in> set ?ts'" and d: "date t = Date s" and c: "row_complete (s, t)"
    by (simp_all add: align_data_member)
  from t obtain i where i: "i < length ts" and ti: "t = ?ts' ! i"
    by (auto simp add: in_set_conv_nth calculate_trend_percentage_length)
  let ?xs = "map Tesla_stock ts"
  have tp: "Trend_Percentage t = Some (fmul (pct_change ?xs ! i) (Fin 100))"
    and td: "date t = date (ts ! i)" and tv: "Tesla_stock t = Tesla_stock (ts ! i)"
    using i by (simp_all add: ti calculate_trend_percentage_nth)
  from c have nn: "Trend_Percentage t \<noteq> Some NaN"
    by (simp add: row_complete_def)
  have pos: "0 < i"
  proof (rule ccontr)
    assume "\<not> 0 < i"
    then have "i = 0" by simp
    with i have "pct_change ?xs ! i = NaN" by (simp add: pct_change_first)
    with tp nn show False by (simp add: fmul_def)
  qed
  have pc: "pct_change ?xs ! i
      = fsub (fdiv (Fin (real_of_int (Tesla_stock (ts ! i))))
                   (Fin (real_of_int (Tesla_stock (ts ! (i - 1)))))) (Fin 1)"
    using pos i by (simp add: pct_change_nth)
  have "\<exists>i. 0 < i \<and> i < length ts
            \<and> Date s = date (ts ! i) \<and> Tesla_stock t = Tesla_stock (ts ! i)
            \<and> Trend_Percentage t
                = Some (fmul (fsub (fdiv (Fin (real_of_int (Tesla_stock (ts ! i))))
                                         (Fin (real_of_int (Tesla_stock (ts ! (i - 1))))))
                                   (Fin 1)) (Fin 100))
            \<and> Trend_Percentage t \<noteq> Some NaN
            \<and> (Tesla_stock (ts ! (i - 1)) \<noteq> 0 \<longrightarrow>
                 Trend_Percentage t
                   = Some (Fin ((real_of_int (Tesla_stock (ts ! i))
                                  - real_of_int (Tesla_stock (ts ! (i - 1))))
                                / real_of_int (Tesla_stock (ts ! (i - 1))) * 100)))"
    using pos i d td tv tp nn pc
    by (intro exI [of _ i]) (simp add: percent_formula)
  with oop_pipeline [of ts ss] show ?thesis by blast
qed

theorem trend_percentage_before_join_witness:
  "(price_row 3 6 8, (interest_row 3 40)\<lparr>Trend_Percentage := Some (Fin 100)\<rparr>)
      \<in> set (align_data (calculate_trend_percentage example_interest) later_prices)
   \<and> (\<exists>i. 0 < i \<and> i < length example_interest
          \<and> Date (price_row 3 6 8) = date (example_interest ! i)
          \<and> Tesla_stock (example_interest ! i) = 40)"
proof -
  have mem: "(price_row 3 6 8, (interest_row 3 40)\<lparr>Trend_Percentage := Some (Fin 100)\<rparr>)
      \<in> set (align_data (calculate_trend_percentage example_interest) later_prices)"
    by (simp add: example_merged)
  from trend_percentage_before_join [OF mem]
  obtain i where "0 < i" "i < length example_interest"
    "Date (price_row 3 6 8) = date (example_interest ! i)"
    "Tesla_stock ((interest_row 3 40)\<lparr>Trend_Percentage := Some (Fin 100)\<rparr>)
       = Tesla_stock (example_interest ! i)"
    by blast
  then have "0 < i \<and> i < length example_interest
          \<and> Date (price_row 3 6 8) = date (example_interest ! i)
          \<and> Tesla_stock (example_interest ! i) = 40"
    by (simp add: interest_row_def)
  with mem show ?thesis by blast
qed

section \<open>Facts about calendar dates and their format\<close>

lemma month_and_day_bounds:
  assumes "0 \<le> n" and "n \<le> 364"
  shows "1 \<le> fst (month_and_day leap n) \<and> fst (month_and_day leap n) \<le> 12
       \<and> 1 \<le> snd (month_and_day leap n) \<and> snd (month_and_day leap n) \<le> 31"
proof -
  define m where "m = (n + 50) div 32"
  have lo: "32 * m - 50 \<le> n" and hi: "n \<le> 32 * m - 19"
    unfolding m_def by presburger+
  from lo hi assms have "1 \<le> m" "m \<le> 12" by linarith+
  then have "m = 1 \<or> m = 2 \<or> m = 3 \<or> m = 4 \<or> m = 5 \<or> m = 6
      \<or> m = 7 \<or> m = 8 \<or> m = 9 \<or> m = 10 \<or> m = 11 \<or> m = 12"
    by arith
  then consider "m = 1" | "m = 2" | "m = 3" | "m = 4" | "m = 5" | "m = 6"
    | "m = 7" | "m = 8" | "m = 9" | "m = 10" | "m = 11" | "m = 12"
    by blast
  then show ?thesis
  proof cases
    case 1 with lo hi assms show ?thesis
      by (simp add: month_and_day_def m_def [symmetric] days_before_month_def days_in_month_def)
  next
    case 2 with lo hi assms show ?thesis
      by (simp add: month_and_day_def m_def [symmetric] days_before_month_def days_in_month_def)
  next
    case 3 with lo hi assms show ?thesis
      by (simp add: month_and_day_def m_def [symmetric] days_before_month_def days_in_month_def)
  next
    case 4 with lo hi assms show ?thesis
      by (simp add: month_and_day_def m_def [symmetric] days_before_month_def days_in_month_def)
  next
    case 5 with lo hi assms show ?thesis
      by (simp add: month_and_day_def m_def [symmetric] days_before_month_def days_in_month_def)
  next
    case 6 with lo hi assms show ?thesis
      by (simp add: month_and_day_def m_def [symmetric] days_before_month_def days_in_month_def)
  next
    case 7 with lo hi assms show ?thesis
      by (simp add: month_and_day_def m_def [symmetric] days_before_month_def days_in_month_def)
  next
    case 8 with lo hi assms show ?thesis
      by (simp add: month_and_day_def m_def [symmetric] days_before_month_def days_in_month_def)
  next
    case 9 with lo hi assms show ?thesis
      by (simp add: month_and_day_def m_def [symmetric] days_before_month_def days_in_month_def)
  next
    case 10 with lo hi assms show ?thesis
      by (simp add: month_and_day_def m_def [symmetric] days_before_month_def days_in_month_def)
  next
    case 11 with lo hi assms show ?thesis
      by (simp add: month_and_day_def m_def [symmetric] days_before_month_def days_in_month_def)
  next
    case 12 with lo hi assms show ?thesis
      by (simp add: month_and_day_def m_def [symmetric] days_before_month_def days_in_month_def)
  qed
qed


lemma year_upper_core:
  fixes a b c e r n :: int
  assumes "0 \<le> a" "0 \<le> b" "b \<le> 3" "0 \<le> c" "c \<le> 24" "0 \<le> e" "e \<le> 3" "0 \<le> r"
    and "n = 146097*a + 36524*b + 1461*c + 365*e + r" and "n \<le> 3652058"
  shows "400*a + 100*b + 4*c + e \<le> 9998"
  using assms by linarith

lemma year_lower_core:
  fixes a b c e r n :: int
  assumes "0 \<le> a" "0 \<le> b" "b \<le> 3" "0 \<le> c" "c \<le> 24" "0 \<le> e" "e \<le> 3"
    and "0 \<le> r" "r \<le> 364"
    and "n = 146097*a + 36524*b + 1461*c + 365*e + r" and "364877 \<le> n"
  shows "999 \<le> 400*a + 100*b + 4*c + e"
proof (rule ccontr)
  assume "\<not> 999 \<le> 400*a + 100*b + 4*c + e"
  then have y: "400*a + 100*b + 4*c + e \<le> 998" by simp
  have a2: "a = 2" using assms y by linarith
  have b1: "b = 1" using assms y a2 by linarith
  have c24: "c = 24" using assms y a2 b1 by linarith
  show False using assms y a2 b1 c24 by linarith
qed

lemma ord2ymd_bounds:
  assumes "1 \<le> d" and "d \<le> MAXORDINAL"
  shows "1 \<le> fst (ord2ymd d) \<and> fst (ord2ymd d) \<le> 9999
       \<and> 1 \<le> fst (snd (ord2ymd d)) \<and> fst (snd (ord2ymd d)) \<le> 12
       \<and> 1 \<le> snd (snd (ord2ymd d)) \<and> snd (snd (ord2ymd d)) \<le> 31
       \<and> (364878 \<le> d \<longrightarrow> 1000 \<le> fst (ord2ymd d))"
proof -
  define n where "n = d - 1"
  define a where "a = n div 146097"
  define r400 where "r400 = n mod 146097"
  define b where "b = r400 div 36524"
  define r100 where "r100 = r400 mod 36524"
  define c where "c = r100 div 1461"
  define r4 where "r4 = r100 mod 1461"
  define e where "e = r4 div 365"
  define r1 where "r1 = r4 mod 365"
  define leap where "leap = (e = 3 \<and> (c \<noteq> 24 \<or> b = 3))"
  have n: "0 \<le> n" "n \<le> 3652058"
    using assms by (simp_all add: n_def MAXORDINAL_def)
  have n_eq: "n = 146097 * a + r400" and r400: "0 \<le> r400" "r400 < 146097"
    by (simp_all add: a_def r400_def)
  have r400_eq: "r400 = 36524 * b + r100" and r100: "0 \<le> r100" "r100 < 36524"
    by (simp_all add: b_def r100_def)
  have r100_eq: "r100 = 1461 * c + r4" and r4: "0 \<le> r4" "r4 < 1461"
    by (simp_all add: c_def r4_def)
  have r4_eq: "r4 = 365 * e + r1" and r1: "0 \<le> r1" "r1 < 365"
    by (simp_all add: e_def r1_def)
  have a0: "0 \<le> a" using n(1) by (simp add: a_def pos_imp_zdiv_nonneg_iff)
  have b0: "0 \<le> b" using r400(1) by (simp add: b_def pos_imp_zdiv_nonneg_iff)
  have c0: "0 \<le> c" using r100(1) by (simp add: c_def pos_imp_zdiv_nonneg_iff)
  have e0: "0 \<le> e" using r4(1) by (simp add: e_def pos_imp_zdiv_nonneg_iff)
  have b4: "b \<le> 4" using r400_eq r400 r100 by linarith
  have c24: "c \<le> 24" using r100_eq r100 r4 by linarith
  have e4: "e \<le> 4" using r4_eq r4 r1 by linarith
  define Y where "Y = a * 400 + 1 + b * 100 + c * 4 + e"
  have unfold: "ord2ymd d =
      (if e = 4 \<or> b = 4 then (Y - 1, 12, 31)
       else (case month_and_day leap r1 of (month, day) \<Rightarrow> (Y, month, day)))"
    by (simp add: ord2ymd_def Let_def n_def a_def r400_def b_def r100_def c_def r4_def
        e_def r1_def leap_def Y_def)
  have Y: "Y = 400 * a + 100 * b + 4 * c + e + 1" by (simp add: Y_def)
  show ?thesis
  proof (cases "e = 4 \<or> b = 4")
    case True
    have up: "400 * a + 100 * b + 4 * c + e \<le> 9999"
      using True n n_eq r400_eq r100_eq r4_eq a0 b0 c0 e0 b4 c24 e4 r1 r4 r100 r400
      by linarith
    have lo: "364878 \<le> d \<longrightarrow> 1000 \<le> 400 * a + 100 * b + 4 * c + e"
    proof
      assume "364878 \<le> d"
      then have low: "364877 \<le> n" by (simp add: n_def)
      show "1000 \<le> 400 * a + 100 * b + 4 * c + e"
      proof (cases "b = 4")
        case b: True
        then have "r100 = 0" using r400_eq r400 r100 by linarith
        then have "c = 0" "e = 0" by (simp_all add: c_def r4_def e_def)
        moreover have "2 \<le> a" using low n_eq r400 by linarith
        ultimately show ?thesis using b by linarith
      next
        case False
        with True b4 have e: "e = 4" and b3: "b \<le> 3" by linarith+
        then have r1z: "r1 = 0" using r4_eq r4 r1 by linarith
        define k where "k = 100 * a + 25 * b + c"
        have nk: "n = 1461 * k - 3 * a - b + 1460"
          using n_eq r400_eq r100_eq r4_eq e r1z by (simp add: k_def)
        have "249 \<le> k"
        proof (rule ccontr)
          assume "\<not> 249 \<le> k"
          then have "k \<le> 248" by simp
          with nk a0 b0 low show False by linarith
        qed
        then show ?thesis using e by (simp add: k_def)
      qed
    qed
    have "1 \<le> 400 * a + 100 * b + 4 * c + e"
      using True a0 b0 c0 e0 by linarith
    with up lo have "1 \<le> Y - 1" "Y - 1 \<le> 9999" "364878 \<le> d \<longrightarrow> 1000 \<le> Y - 1"
      unfolding Y by linarith+
    with True show ?thesis by (simp add: unfold)
  next
    case False
    then have b3: "b \<le> 3" and e3: "e \<le> 3" using b4 e4 by linarith+
    have n_all: "n = 146097 * a + 36524 * b + 1461 * c + 365 * e + r1"
      using n_eq r400_eq r100_eq r4_eq by linarith
    have up: "400 * a + 100 * b + 4 * c + e \<le> 9998"
      using a0 b0 b3 c0 c24 e0 e3 r1(1) n_all n(2) by (rule year_upper_core)
    have lo: "364878 \<le> d \<longrightarrow> 999 \<le> 400 * a + 100 * b + 4 * c + e"
    proof
      assume "364878 \<le> d"
      then have low: "364877 \<le> n" by (simp add: n_def)
      have "r1 \<le> 364" using r1(2) by simp
      with a0 b0 b3 c0 c24 e0 e3 r1(1) show "999 \<le> 400 * a + 100 * b + 4 * c + e"
        using n_all low by (rule year_lower_core)
    qed
    have md: "1 \<le> fst (month_and_day leap r1) \<and> fst (month_and_day leap r1) \<le> 12
       \<and> 1 \<le> snd (month_and_day leap r1) \<and> snd (month_and_day leap r1) \<le> 31"
      using r1 by (intro month_and_day_bounds) simp_all
    from up lo a0 b0 c0 e0 have "1 \<le> Y" "Y \<le> 9999" "364878 \<le> d \<longrightarrow> 1000 \<le> Y"
      unfolding Y by linarith+
    with False md show ?thesis
      by (simp add: unfold case_prod_unfold)
  qed
qed


lemma is_digit_digit_char: "d < 10 \<Longrightarrow> is_digit (digit_char d)"
  using nth_mem [of d "''0123456789''"] by (simp add: is_digit_def digit_char_def)


lemma decimal_small: "n < 10 \<Longrightarrow> decimal n = [digit_char n]"
  by (subst decimal.simps) simp


lemma decimal_large: "\<not> n < 10 \<Longrightarrow> decimal n = decimal (n div 10) @ [digit_char (n mod 10)]"
  by (subst decimal.simps) simp


lemma decimal_digits: "list_all is_digit (decimal n)"
proof (induction n rule: decimal.induct)
  case (1 n)
  show ?case
  proof (cases "n < 10")
    case True
    then show ?thesis by (simp add: decimal_small is_digit_digit_char)
  next
    case False
    with 1 show ?thesis by (simp add: decimal_large is_digit_digit_char)
  qed
qed


lemma decimal_length_pos: "0 < length (decimal n)"
  by (cases "n < 10") (simp_all add: decimal_small decimal_large)


lemma div_ten_less: "(n::nat) < 10 * m \<Longrightarrow> n div 10 < m"
  by arith


lemma div_ten_ge: "10 * m \<le> (n::nat) \<Longrightarrow> m \<le> n div 10"
  by arith


lemma decimal_length_le: "0 < k \<Longrightarrow> n < 10 ^ k \<Longrightarrow> length (decimal n) \<le> k"
proof (induction k arbitrary: n)
  case 0
  then show ?case by simp
next
  case (Suc k)
  show ?case
  proof (cases "n < 10")
    case True
    then show ?thesis by (simp add: decimal_small)
  next
    case False
    with Suc.prems have k: "0 < k" by (cases k) simp_all
    from Suc.prems have "n < 10 * 10 ^ k" by simp
    then have "n div 10 < 10 ^ k" by (rule div_ten_less)
    with k have "length (decimal (n div 10)) \<le> k" by (rule Suc.IH)
    with False show ?thesis by (simp add: decimal_large)
  qed
qed


lemma decimal_length_gt: "10 ^ k \<le> n \<Longrightarrow> k < length (decimal n)"
proof (induction k arbitrary: n)
  case 0
  show ?case by (rule decimal_length_pos)
next
  case (Suc k)
  then have le: "10 * 10 ^ k \<le> n" by simp
  have "(1::nat) \<le> 10 ^ k" by simp
  with le have big: "\<not> n < 10" by linarith
  from le have "10 ^ k \<le> n div 10" by (rule div_ten_ge)
  then have "k < length (decimal (n div 10))" by (rule Suc.IH)
  with big show ?case by (simp add: decimal_large)
qed


lemma zero_pad_length: "length s \<le> w \<Longrightarrow> length (zero_pad w s) = w"
  by (simp add: zero_pad_def)


lemma is_digit_zero: "is_digit (CHR ''0'')"
  by (simp add: is_digit_def)

lemma zeros_digits: "list_all is_digit (replicate k (CHR ''0''))"
  by (induction k) (simp_all add: is_digit_zero)

lemma zero_pad_digits: "list_all is_digit s \<Longrightarrow> list_all is_digit (zero_pad w s)"
  by (simp add: zero_pad_def zeros_digits)

lemma iso_date_shapeI:
  assumes "length Y = 4" and "length M = 2" and "length D = 2"
    and "list_all is_digit Y" and "list_all is_digit M" and "list_all is_digit D"
  shows "iso_date_shape (Y @ ''-'' @ M @ ''-'' @ D)"
  using assms by (simp add: iso_date_shape_def nth_append)

lemma strftime_ymd_shape:
  assumes "1 \<le> d" and "d \<le> MAXORDINAL" and "year_padded \<or> 364878 \<le> d"
  shows "iso_date_shape (strftime_ymd year_padded d)"
proof -
  obtain y m dd where ymd: "ord2ymd d = (y, m, dd)" by (cases "ord2ymd d") auto
  from ord2ymd_bounds [OF assms(1,2)] ymd
  have y: "1 \<le> y" "y \<le> 9999" and m: "1 \<le> m" "m \<le> 12" and dd: "1 \<le> dd" "dd \<le> 31"
    and y4: "364878 \<le> d \<longrightarrow> 1000 \<le> y"
    by simp_all
  let ?Y = "if year_padded then zero_pad 4 (decimal (nat y)) else decimal (nat y)"
  have yle: "length (decimal (nat y)) \<le> 4"
    using y by (intro decimal_length_le) simp_all
  have "length ?Y = 4"
  proof (cases year_padded)
    case True
    with yle show ?thesis by (simp add: zero_pad_length)
  next
    case False
    with assms(3) y4 have "1000 \<le> y" by simp
    then have "10 ^ 3 \<le> nat y" by simp
    then have "3 < length (decimal (nat y))" by (rule decimal_length_gt)
    with yle False show ?thesis by simp
  qed
  moreover have "length (zero_pad 2 (decimal (nat m))) = 2"
    using m by (intro zero_pad_length decimal_length_le) simp_all
  moreover have "length (zero_pad 2 (decimal (nat dd))) = 2"
    using dd by (intro zero_pad_length decimal_length_le) simp_all
  moreover have "list_all is_digit ?Y"
    by (simp add: zero_pad_digits decimal_digits)
  moreover have "list_all is_digit (zero_pad 2 (decimal (nat m)))"
    "list_all is_digit (zero_pad 2 (decimal (nat dd)))"
    by (simp_all add: zero_pad_digits decimal_digits)
  ultimately have "iso_date_shape (?Y @ ''-'' @ zero_pad 2 (decimal (nat m)) @ ''-''
      @ zero_pad 2 (decimal (nat dd)))"
    by (rule iso_date_shapeI)
  then show ?thesis by (simp add: strftime_ymd_def ymd)
qed

lemma ord2ymd_today: "ord2ymd 739924 = (2026, 11, 4)"
  by (simp add: ord2ymd_def month_and_day_def days_before_month_def days_in_month_def Let_def)

lemma ord2ymd_start: "ord2ymd 739904 = (2026, 10, 15)"
  by (simp add: ord2ymd_def month_and_day_def days_before_month_def days_in_month_def Let_def)

lemma ord2ymd_first: "ord2ymd 1 = (1, 1, 1)"
  by (simp add: ord2ymd_def month_and_day_def days_before_month_def days_in_month_def Let_def)

lemma decimal_examples:
  "decimal 2026 = ''2026''" "decimal 11 = ''11''" "decimal 4 = ''4''" "decimal 10 = ''10''"
  "decimal 15 = ''15''" "decimal 1 = ''1''" "decimal (Suc 0) = ''1''"
  by (simp_all add: decimal.simps digit_char_def)

section \<open>The exponential moving average\<close>

text \<open>
  Claim C5: for every non-empty series, \<open>calculate_ema\<close> with span \<open>w\<close> computes the
  unadjusted recursive average \<open>EMA[0] = value[0]\<close>,
  \<open>EMA[t] = alpha * value[t] + (1 - alpha) * EMA[t-1]\<close> with \<open>alpha = 2 / (w + 1)\<close>.
  For the series 10, NaN, 30 and span 3 the code returns 10, 10, 70/3: it repeats the
  last average at the missing value and then weights that average by
  \<open>(1 - alpha)\<^sup>2\<close> against \<open>alpha\<close>, where the recursion from the average 10 gives 20.
  For the span 0 it raises ValueError. The method of the class does the same.
\<close>

theorem calculate_ema_skips_missing:
  "calculate_ema [Some 10, None, Some 30] 3 = Inr [Some 10, Some 10, Some (70 / 3)]
   \<and> calculate_ema_oop (loaded ''Tesla stock'' []) [Some 10, None, Some 30] 3
       = Inr [Some 10, Some 10, Some (70 / 3)]
   \<and> (70 / 3 :: real) \<noteq> 1 / 2 * 30 + (1 - 1 / 2) * 10
   \<and> calculate_ema [Some 10, Some 20, Some 30] 0 = Inl ValueError
   \<and> calculate_ema_oop (loaded ''Tesla stock'' []) [Some 10, Some 20, Some 30] 0 = Inl ValueError"
  by (simp add: calculate_ema_def calculate_ema_oop_def ewm_mean_def span_alpha_def Let_def)

text \<open>
  Claim C5 as the code has it: for every series of present values and every span \<open>w\<close>
  of 1 or more, \<open>calculate_ema\<close> computes the unadjusted recursive average
  \<open>EMA[0] = value[0]\<close>, \<open>EMA[t] = alpha * value[t] + (1 - alpha) * EMA[t-1]\<close> with
  \<open>alpha = 2 / (w + 1)\<close>, so that 10, 20, 30 and span 3 give 10, 15, 22.5; for every
  series and every span below 1 it raises ValueError. The method of the class does the
  same.
\<close>

theorem calculate_ema_recursive:
  "(1 \<le> w \<longrightarrow>
      calculate_ema (map Some vs) w =
           Inr (map (\<lambda>t. Some (ema_spec (2 / (real_of_int w + 1)) vs t)) [0..<length vs])
      \<and> calculate_ema_oop self (map Some vs) w = calculate_ema (map Some vs) w)
   \<and> (w < 1 \<longrightarrow>
      calculate_ema xs w = Inl ValueError \<and> calculate_ema_oop self xs w = Inl ValueError)"
proof -
  have "ewm_mean (span_alpha w) (map Some vs) =
          map (\<lambda>t. Some (ema_spec (span_alpha w) vs t)) [0..<length vs]"
    by (rule nth_equalityI) (simp_all add: ewm_mean_length ewm_mean_nth)
  then have "1 \<le> w \<longrightarrow>
      calculate_ema (map Some vs) w =
           Inr (map (\<lambda>t. Some (ema_spec (2 / (real_of_int w + 1)) vs t)) [0..<length vs])
      \<and> calculate_ema_oop self (map Some vs) w = calculate_ema (map Some vs) w"
    by (auto simp add: calculate_ema_def calculate_ema_oop_def span_alpha_eq)
  moreover have "w < 1 \<longrightarrow>
      calculate_ema xs w = Inl ValueError \<and> calculate_ema_oop self xs w = Inl ValueError"
    by (simp add: calculate_ema_def calculate_ema_oop_def)
  ultimately show ?thesis by blast
qed

theorem calculate_ema_recursive_witness:
  "(1::int) \<le> 3
   \<and> calculate_ema [Some 10, Some 20, Some 30] 3 = Inr [Some 10, Some 15, Some 22.5]
   \<and> calculate_ema_oop (loaded ''Tesla stock'' []) [Some 10, Some 20, Some 30] 3
       = Inr [Some 10, Some 15, Some 22.5]
   \<and> (0::int) < 1
   \<and> calculate_ema [Some 10, None] 0 = Inl ValueError"
  using calculate_ema_recursive [of 3 "[10, 20, 30]" "loaded ''Tesla stock'' []" "[]"]
    calculate_ema_recursive [of 0 "[]" "loaded ''Tesla stock'' []" "[Some 10, None]"]
  by (simp add: upt_rec numeral_eq_Suc)

section \<open>The timeframe string\<close>

text \<open>
  Claim C7: for every non-negative \<open>n\<close>, \<open>get_timeframe(n)\<close> returns the string of
  today minus \<open>n\<close> days, a space and today, both as \<open>YYYY-MM-DD\<close>, the first date before
  the second. Take today to be 2026-11-04, day 739924. For \<open>n = 739924\<close> the
  subtraction leaves the dates and raises OverflowError. For \<open>n = 739923\<close> the first
  date is in the year 1, which a C library that does not pad the year prints as
  \<open>1-01-01\<close>. For \<open>n = 0\<close> the two dates are the same day.
\<close>

theorem get_timeframe_out_of_range:
  "get_timeframe False 739924 739924 = Inl OverflowError
   \<and> get_timeframe True 739924 739924 = Inl OverflowError
   \<and> get_timeframe False 739924 739923 = Inr ''1-01-01 2026-11-04''
   \<and> get_timeframe True 739924 0 = Inr ''2026-11-04 2026-11-04''"
  by (simp add: get_timeframe_def MAXORDINAL_def strftime_ymd_def ord2ymd_today ord2ymd_first
      decimal_examples zero_pad_def)

text \<open>
  Claim C7 as the code has it, today being a date (a day from 1 to 3652059). For every
  \<open>n \<ge> 0\<close> smaller than the day number of today, with today minus \<open>n\<close> days in the year
  1000 or later (day 364878 is 1000-01-01) unless the platform pads the year,
  \<open>get_timeframe(n)\<close> returns the string of today minus \<open>n\<close> days, a space and today,
  both of the shape \<open>YYYY-MM-DD\<close>; the first date is not after the second, and before
  it when \<open>n\<close> is positive. For every \<open>n\<close> that is the day number of today or more,
  \<open>get_timeframe(n)\<close> raises OverflowError. The static method of the class returns
  the same in both cases.
\<close>

theorem get_timeframe_in_range:
  "(0 \<le> n \<and> n < today \<and> today \<le> MAXORDINAL \<and> (year_padded \<or> 364878 \<le> today - n) \<longrightarrow>
       get_timeframe year_padded today n
           = Inr (strftime_ymd year_padded (today - n) @ '' '' @ strftime_ymd year_padded today)
       \<and> iso_date_shape (strftime_ymd year_padded (today - n))
       \<and> iso_date_shape (strftime_ymd year_padded today)
       \<and> today - n \<le> today \<and> (0 < n \<longrightarrow> today - n < today)
       \<and> get_timeframe_oop year_padded today n = get_timeframe year_padded today n)
   \<and> (today \<le> n \<longrightarrow>
       get_timeframe year_padded today n = Inl OverflowError
       \<and> get_timeframe_oop year_padded today n = Inl OverflowError)"
proof (intro conjI impI)
  assume "today \<le> n"
  then show "get_timeframe year_padded today n = Inl OverflowError"
    by (simp add: get_timeframe_def Let_def)
next
  assume "today \<le> n"
  then show "get_timeframe_oop year_padded today n = Inl OverflowError"
    by (simp add: get_timeframe_oop_def Let_def)
next
  assume a: "0 \<le> n \<and> n < today \<and> today \<le> MAXORDINAL \<and> (year_padded \<or> 364878 \<le> today - n)"
  have small: "\<not> 999999999 < \<bar>n\<bar>"
    using a by (simp add: MAXORDINAL_def)
  have range: "\<not> (today - n < 1 \<or> MAXORDINAL < today - n)"
    using a by simp
  show "get_timeframe year_padded today n
           = Inr (strftime_ymd year_padded (today - n) @ '' '' @ strftime_ymd year_padded today)"
    using small range by (simp add: get_timeframe_def Let_def)
  show "iso_date_shape (strftime_ymd year_padded (today - n))"
    using a by (intro strftime_ymd_shape) auto
  show "iso_date_shape (strftime_ymd year_padded today)"
    using a by (intro strftime_ymd_shape) auto
  show "get_timeframe_oop year_padded today n = get_timeframe year_padded today n"
    by (simp add: get_timeframe_oop_def get_timeframe_def)
  show "today - n \<le> today" using a by simp
  show "today - n < today" if "0 < n" using that by simp
qed

theorem get_timeframe_in_range_witness:
  "get_timeframe False 739924 20 = Inr ''2026-10-15 2026-11-04''
   \<and> get_timeframe_oop False 739924 20 = Inr ''2026-10-15 2026-11-04''
   \<and> iso_date_shape ''2026-10-15'' \<and> iso_date_shape ''2026-11-04''
   \<and> get_timeframe False 739924 800000 = Inl OverflowError
   \<and> get_timeframe_oop False 739924 800000 = Inl OverflowError"
  using get_timeframe_in_range [of 20 739924 False]
    get_timeframe_in_range [of 800000 739924 False]
  by (simp add: MAXORDINAL_def strftime_ymd_def ord2ymd_today ord2ymd_start decimal_examples
      zero_pad_def)

section \<open>Facts about the column labels\<close>

lemma split_on_nonempty: "split_on sep s \<noteq> []"
  by (induction s) (auto split: list.splits)

lemma split_on_append:
  "sep \<notin> set a \<Longrightarrow> split_on sep (a @ sep # t) = a # split_on sep t"
  by (induction a) (auto split: list.splits simp add: split_on_nonempty)

lemma replace_keeps_head:
  "c \<noteq> a \<Longrightarrow> str_replace (a # old) new (c # cs) = c # str_replace (a # old) new cs"
  by (simp add: str_replace_def)

lemma replace_date_label:
  "str_replace ''Date_'' ''Date'' (str_replace (''_'' @ tick) '''' ''Date_'') = ''Date''"
proof (cases tick)
  case Nil
  then show ?thesis by (simp add: str_replace_def)
next
  case (Cons a as)
  then show ?thesis by (simp add: str_replace_def)
qed

lemma replace_other_label:
  assumes "c \<noteq> CHR ''_''" and "c \<noteq> CHR ''D''"
  shows "str_replace ''Date_'' ''Date'' (str_replace (''_'' @ tick) '''' (c # cs)) \<noteq> ''Date''"
proof -
  have "str_replace (''_'' @ tick) '''' (c # cs) = c # str_replace (''_'' @ tick) '''' cs"
    using assms(1) by (simp add: str_replace_def)
  moreover have "str_replace ''Date_'' ''Date'' (c # str_replace (''_'' @ tick) '''' cs)
      = c # str_replace ''Date_'' ''Date'' (str_replace (''_'' @ tick) '''' cs)"
    using assms(2) by (simp add: str_replace_def)
  ultimately show ?thesis using assms(2) by simp
qed

lemma two_level_last: "split_on CHR ''_'' (''Volume_'' @ ticker) = ''Volume'' # split_on CHR ''_'' ticker"
  using split_on_append [of "CHR ''_''" "''Volume''" ticker] by simp

lemma relabel_two_level:
  "\<exists>names. relabel (reset_index_labels (TwoLevel ticker)) = Inr names
     \<and> ''Date'' \<in> set names \<and> length (filter (\<lambda>n. n = ''Date'') names) = 1"
proof -
  obtain tick rest where sp: "split_on CHR ''_'' ticker = tick # rest"
    using split_on_nonempty [of "CHR ''_''" ticker] by (cases "split_on CHR ''_'' ticker") auto
  let ?f = "str_replace ''Date_'' ''Date'' \<circ> str_replace (''_'' @ tick) ''''"
  let ?joined = "[''Date_'', ''Close_'' @ ticker, ''High_'' @ ticker, ''Low_'' @ ticker,
                  ''Open_'' @ ticker, ''Volume_'' @ ticker]"
  have joined: "map join_label (reset_index_labels (TwoLevel ticker)) = ?joined"
    by (simp add: reset_index_labels_def value_columns_def)
  have "last ?joined = ''Volume_'' @ ticker" by simp
  then have r: "relabel (reset_index_labels (TwoLevel ticker)) = Inr (map ?f ?joined)"
    unfolding relabel_def joined Let_def using two_level_last [of ticker] sp by simp
  have d: "?f ''Date_'' = ''Date''" using replace_date_label [of tick] by simp
  have o: "?f (''Close_'' @ ticker) \<noteq> ''Date''" "?f (''High_'' @ ticker) \<noteq> ''Date''"
    "?f (''Low_'' @ ticker) \<noteq> ''Date''" "?f (''Open_'' @ ticker) \<noteq> ''Date''"
    "?f (''Volume_'' @ ticker) \<noteq> ''Date''"
    using replace_other_label [of _ tick] by simp_all
  from r d o show ?thesis by simp
qed

lemma relabel_single_level:
  "relabel (reset_index_labels SingleLevel)
     = Inr [''D_a_t_e'', ''C_l_s_e'', ''H_i_g_h'', ''L_w'', ''O_p_e_n'', ''V_l_u_m_e'']"
  by (simp add: relabel_def reset_index_labels_def value_columns_def str_replace_def Let_def)

lemma align_data_labelled_two_level:
  "align_data_labelled ts (TwoLevel ticker) ss = Inr (align_data ts ss)"
  using relabel_two_level [of ticker] by (auto simp add: align_data_labelled_def)

lemma align_data_labelled_single_level:
  "align_data_labelled ts SingleLevel ss = Inl KeyError"
  by (simp add: align_data_labelled_def relabel_single_level)

lemma get_level_values_date: "''Date'' \<in> set (get_level_values columns)"
  by (cases columns) (simp_all add: get_level_values_def)

section \<open>Aligning tables without a common date\<close>

text \<open>
  Claim C2: for two tables without a common date the align operation raises
  AlignmentError rather than returning an empty table, and it returns normally when
  there is a common date. Neither script has such an exception or any check of the
  join: with interest on days 1, 2, 3 and prices on days 4 and 5, labelled by field
  and ticker, \<open>align_data\<close> returns the empty table, and so does the method of the
  class.
\<close>

theorem align_data_disjoint_returns_empty:
  "set (map date example_interest) \<inter> set (map Date disjoint_prices) = {}
   \<and> align_data_labelled example_interest (TwoLevel ''TSLA'') disjoint_prices = Inr []
   \<and> align_data_oop (with_tables example_interest disjoint_prices)
       = Inr ((with_tables example_interest disjoint_prices)\<lparr>merged_data := Some []\<rparr>, [])"
  by (simp add: example_defs align_data_labelled_two_level align_data_def align_data_oop_def
      merge_inner_def)

text \<open>
  Claim C2 as the code has it: for every interest table and every price table whose
  columns are labelled by two levels, the field and the ticker, the function
  \<open>align_data\<close> returns normally, and what it returns for two tables without a common
  date is the empty table. For a price table whose columns are labelled by one level
  it raises KeyError, whatever the dates. The method of the class returns the table of
  the join once both tables are loaded.
\<close>

theorem align_data_returns:
  "align_data_labelled ts (TwoLevel ticker) ss = Inr (align_data ts ss)
   \<and> align_data_labelled ts SingleLevel ss = Inl KeyError
   \<and> (\<exists>self'. align_data_oop (with_tables ts ss) = Inr (self', align_data ts ss))
   \<and> (set (map date ts) \<inter> set (map Date ss) = {} \<longrightarrow> align_data ts ss = [])"
  by (simp add: align_data_labelled_two_level align_data_labelled_single_level
      align_data_oop_def with_tables_def new_analysis_def Let_def align_data_disjoint)
    (simp add: align_data_def)

theorem align_data_returns_witness:
  "set (map date example_interest) \<inter> set (map Date disjoint_prices) = {}
   \<and> align_data_labelled example_interest (TwoLevel ''TSLA'') disjoint_prices = Inr []
   \<and> align_data_labelled example_interest SingleLevel disjoint_prices = Inl KeyError"
  using align_data_returns [of example_interest "''TSLA''" disjoint_prices]
  by (simp add: example_defs)

section \<open>Facts about rounding to binary64\<close>













section \<open>Facts about the volume scaling\<close>

















section \<open>Normalizing a volume column that is already scaled\<close>




section \<open>Facts about the correlation\<close>

lemma complete_pairs_swap:
  "complete_pairs ys xs = map prod.swap (complete_pairs xs ys)"
proof -
  have "zip ys xs = map prod.swap (zip xs ys)"
    by (subst zip_commute) (simp add: prod.swap_def case_prod_unfold)
  then show ?thesis
    by (simp add: complete_pairs_def filter_map comp_def case_prod_unfold conj_commute)
qed

lemma covxy_maps:
  "covxy (map f ps) (map g ps)
     = (\<Sum>p\<leftarrow>ps. (f p - mean_of (map f ps)) * (g p - mean_of (map g ps)))"
  by (simp add: covxy_def zip_map_map zip_same_conv_map comp_def case_prod_unfold)

lemma covxy_commute_maps: "covxy (map f ps) (map g ps) = covxy (map g ps) (map f ps)"
  by (simp add: covxy_maps mult.commute)

lemma pearson_commute: "pearson xs ys = pearson ys xs"
proof -
  let ?ps = "complete_pairs xs ys"
  have sw: "complete_pairs ys xs = map prod.swap ?ps" by (rule complete_pairs_swap)
  have m1: "map (fin_val \<circ> fst) (map prod.swap ?ps) = map (fin_val \<circ> snd) ?ps"
    and m2: "map (fin_val \<circ> snd) (map prod.swap ?ps) = map (fin_val \<circ> fst) ?ps"
    by simp_all
  show ?thesis
    unfolding pearson_def [of ys xs] sw
    unfolding pearson_def [of xs ys] m1 m2 Let_def
    by (simp add: mult.commute covxy_commute_maps)
qed

lemma ssqdm_nonneg: "0 \<le> ssqdm xs"
  unfolding ssqdm_def by (rule sum_list_nonneg) auto

lemma covxy_self: "covxy xs xs = ssqdm xs"
  by (simp add: covxy_def ssqdm_def zip_same_conv_map comp_def)

lemma ssqdm_zero_iff: "ssqdm xs = 0 \<longleftrightarrow> (\<forall>x\<in>set xs. x = mean_of xs)"
proof -
  have "ssqdm xs = 0 \<longleftrightarrow> (\<forall>y\<in>set (map (\<lambda>x. (x - mean_of xs) * (x - mean_of xs)) xs). y = 0)"
    unfolding ssqdm_def by (rule sum_list_nonneg_eq_0_iff) auto
  then show ?thesis by auto
qed

lemma mean_of_constant:
  assumes "xs \<noteq> []" and "\<forall>x\<in>set xs. x = c"
  shows "mean_of xs = c"
proof -
  have "xs = replicate (length xs) c"
    using assms(2) by (simp add: replicate_length_same)
  then have "sum_list xs = real (length xs) * c"
    by (metis sum_list_replicate)
  with assms(1) show ?thesis by (simp add: mean_of_def)
qed

lemma ssqdm_zero_iff_constant:
  "ssqdm xs = 0 \<longleftrightarrow> \<not> (\<exists>a\<in>set xs. \<exists>b\<in>set xs. a \<noteq> b)"
proof (cases "xs = []")
  case True
  then show ?thesis by (simp add: ssqdm_def)
next
  case False
  show ?thesis
  proof
    assume "ssqdm xs = 0"
    then have "\<forall>x\<in>set xs. x = mean_of xs" by (simp add: ssqdm_zero_iff)
    then show "\<not> (\<exists>a\<in>set xs. \<exists>b\<in>set xs. a \<noteq> b)" by metis
  next
    assume c: "\<not> (\<exists>a\<in>set xs. \<exists>b\<in>set xs. a \<noteq> b)"
    from False obtain x where x: "x \<in> set xs" by (cases xs) auto
    with c have all: "\<forall>y\<in>set xs. y = x" by blast
    with False have "mean_of xs = x" by (rule mean_of_constant)
    with all show "ssqdm xs = 0" by (simp add: ssqdm_zero_iff)
  qed
qed

lemma complete_pairs_same:
  "complete_pairs xs xs = map (\<lambda>a. (a, a)) (filter is_finite xs)"
  by (simp add: complete_pairs_def zip_same_conv_map filter_map comp_def)

lemma fin_val_inject: "is_finite a \<Longrightarrow> is_finite b \<Longrightarrow> (fin_val a = fin_val b) = (a = b)"
  by (cases a; cases b) simp_all

lemma pearson_diagonal: "pearson xs xs = (if varies xs then Fin 1 else NaN)"
proof -
  let ?vs = "filter is_finite xs"
  let ?as = "map fin_val ?vs"
  have ps: "complete_pairs xs xs = map (\<lambda>a. (a, a)) ?vs" by (rule complete_pairs_same)
  have maps: "map (fin_val \<circ> fst) (map (\<lambda>a. (a, a)) ?vs) = ?as"
             "map (fin_val \<circ> snd) (map (\<lambda>a. (a, a)) ?vs) = ?as"
    by simp_all
  have root: "sqrt (ssqdm ?as * ssqdm ?as) = ssqdm ?as"
    using ssqdm_nonneg [of ?as] by simp
  have differ: "(\<exists>a\<in>set ?as. \<exists>b\<in>set ?as. a \<noteq> b) = (\<exists>a\<in>set ?vs. \<exists>b\<in>set ?vs. a \<noteq> b)"
  proof
    assume "\<exists>a\<in>set ?as. \<exists>b\<in>set ?as. a \<noteq> b"
    then obtain x y where x: "x \<in> set ?as" and y: "y \<in> set ?as" and xy: "x \<noteq> y" by blast
    from x obtain a where a: "a \<in> set ?vs" "x = fin_val a" unfolding set_map by blast
    from y obtain b where b: "b \<in> set ?vs" "y = fin_val b" unfolding set_map by blast
    from xy a(2) b(2) have "a \<noteq> b" by blast
    with a(1) b(1) show "\<exists>a\<in>set ?vs. \<exists>b\<in>set ?vs. a \<noteq> b" by blast
  next
    assume "\<exists>a\<in>set ?vs. \<exists>b\<in>set ?vs. a \<noteq> b"
    then obtain a b where ab: "a \<in> set ?vs" "b \<in> set ?vs" "a \<noteq> b" by blast
    then have "is_finite a" "is_finite b" by simp_all
    with ab(3) have "fin_val a \<noteq> fin_val b" by (simp add: fin_val_inject)
    moreover from ab(1,2) have "fin_val a \<in> set ?as" "fin_val b \<in> set ?as"
      unfolding set_map by blast+
    ultimately show "\<exists>a\<in>set ?as. \<exists>b\<in>set ?as. a \<noteq> b" by blast
  qed
  show ?thesis
  proof (cases "varies xs")
    case True
    then have v: "\<exists>a\<in>set ?vs. \<exists>b\<in>set ?vs. a \<noteq> b" by (simp add: varies_def)
    then obtain a where "a \<in> set ?vs" by blast
    then have ne: "?vs \<noteq> []" by (metis empty_iff list.set(1))
    from v differ have nz: "ssqdm ?as \<noteq> 0" by (simp add: ssqdm_zero_iff_constant)
    from True ne nz show ?thesis
      unfolding pearson_def ps maps Let_def root
      by (simp add: covxy_self clip_unit_def)
  next
    case False
    then have "\<not> (\<exists>a\<in>set ?vs. \<exists>b\<in>set ?vs. a \<noteq> b)" by (simp add: varies_def)
    with differ have "ssqdm ?as = 0" by (simp add: ssqdm_zero_iff_constant)
    with False show ?thesis
      unfolding pearson_def ps maps Let_def root by simp
  qed
qed

lemma inf_column_diagonal: "pearson [PInf, Fin 100, Fin (- 50)] [PInf, Fin 100, Fin (- 50)] = Fin 1"
  by (auto simp add: pearson_diagonal varies_def)

lemma correlation_diagonal:
  "map_of (numeric_columns m) a = Some col \<Longrightarrow>
   calculate_correlation m (a, a) = Some (if varies col then Fin 1 else NaN)"
  by (simp add: calculate_correlation_def corr_def pearson_diagonal)

lemma flat_merged:
  "align_data (calculate_trend_percentage example_interest) flat_prices
     = [(price_row 2 5 7, (interest_row 2 20)\<lparr>Trend_Percentage := Some (Fin 100)\<rparr>),
        (price_row 3 6 7, (interest_row 3 40)\<lparr>Trend_Percentage := Some (Fin 100)\<rparr>)]"
  by (simp add: example_defs align_data_def calculate_trend_percentage_def pct_change_def
      merge_inner_def row_complete_def fmul_def fsub_def fadd_def fdiv_def)

lemma spike_merged:
  "align_data (calculate_trend_percentage spike_interest) spike_prices
     = [(price_row 2 5 7, (interest_row 2 5)\<lparr>Trend_Percentage := Some PInf\<rparr>),
        (price_row 3 6 8, (interest_row 3 10)\<lparr>Trend_Percentage := Some (Fin 100)\<rparr>),
        (price_row 4 7 9, (interest_row 4 5)\<lparr>Trend_Percentage := Some (Fin (- 50))\<rparr>)]"
  by (simp add: spike_interest_def spike_prices_def interest_row_def price_row_def
      align_data_def calculate_trend_percentage_def pct_change_def
      merge_inner_def row_complete_def fmul_def fsub_def fadd_def fdiv_def inf_of_sign_def)

section \<open>The correlation matrix\<close>

text \<open>
  Claim C9: the correlation matrix of a merged table is symmetric and its diagonal
  entries are always 1.0. The diagonal entry of a column that does not vary is NaN. In
  the merged table of interest on days 1, 2, 3 and prices on days 2 and 3 with the
  volume 7 on both, the volume column is constant, the sum of its squared deviations is
  0 and its entry with itself is NaN; so is the entry of the partial-day flag, False in
  every row.
\<close>

theorem correlation_diagonal_nan:
  "calculate_correlation (align_data (calculate_trend_percentage example_interest) flat_prices)
     (''Volume'', ''Volume'') = Some NaN
   \<and> calculate_correlation (align_data (calculate_trend_percentage example_interest) flat_prices)
     (''isPartial'', ''isPartial'') = Some NaN"
proof -
  let ?m = "align_data (calculate_trend_percentage example_interest) flat_prices"
  have v: "map_of (numeric_columns ?m) ''Volume'' = Some [Fin 7, Fin 7]"
    by (simp add: flat_merged numeric_columns_def price_row_def of_value_def)
  have p: "map_of (numeric_columns ?m) ''isPartial'' = Some [Fin 0, Fin 0]"
    by (simp add: flat_merged numeric_columns_def interest_row_def of_bool_value_def)
  have "\<not> varies [Fin 7, Fin 7]" "\<not> varies [Fin 0, Fin 0]"
    by (auto simp add: varies_def)
  with correlation_diagonal [OF v] correlation_diagonal [OF p] show ?thesis by simp
qed

text \<open>
  Claim C9 as the code has it, the entries being computed exactly: the matrix is
  symmetric, a missing entry mirrored by a missing entry, and the diagonal entry of a
  column is 1.0 when two of its finite entries differ and NaN when its finite entries
  are all equal or it has none; an entry that is NaN or an infinity is skipped. The
  method of the class returns the matrix of the function.
\<close>

theorem correlation_symmetric_diagonal:
  "calculate_correlation m (a, b) = calculate_correlation m (b, a)
   \<and> (map_of (numeric_columns m) a = Some col \<longrightarrow>
        calculate_correlation m (a, a) = Some (if varies col then Fin 1 else NaN))
   \<and> calculate_correlation_oop (new_analysis\<lparr>merged_data := Some m\<rparr>)
       = Inr (calculate_correlation m)"
proof -
  have "calculate_correlation m (a, b) = calculate_correlation m (b, a)"
    by (simp add: calculate_correlation_def corr_def pearson_commute [of _ _]
        split: option.splits)
  moreover have "map_of (numeric_columns m) a = Some col \<longrightarrow>
        calculate_correlation m (a, a) = Some (if varies col then Fin 1 else NaN)"
    by (simp add: correlation_diagonal)
  moreover have "calculate_correlation_oop (new_analysis\<lparr>merged_data := Some m\<rparr>)
       = Inr (calculate_correlation m)"
    by (simp add: calculate_correlation_oop_def calculate_correlation_def)
  ultimately show ?thesis by blast
qed

theorem correlation_symmetric_diagonal_witness:
  "map_of (numeric_columns (align_data (calculate_trend_percentage spike_interest) spike_prices))
      ''Trend_Percentage'' = Some [PInf, Fin 100, Fin (- 50)]
   \<and> calculate_correlation (align_data (calculate_trend_percentage spike_interest) spike_prices)
      (''Trend_Percentage'', ''Trend_Percentage'') = Some (Fin 1)
   \<and> calculate_correlation (align_data (calculate_trend_percentage spike_interest) spike_prices)
      (''Close'', ''Volume'')
     = calculate_correlation (align_data (calculate_trend_percentage spike_interest) spike_prices)
      (''Volume'', ''Close'')"
proof -
  let ?m = "align_data (calculate_trend_percentage spike_interest) spike_prices"
  have col: "map_of (numeric_columns ?m) ''Trend_Percentage'' = Some [PInf, Fin 100, Fin (- 50)]"
    by (simp add: spike_merged numeric_columns_def optional_column_def)
  have v: "varies [PInf, Fin 100, Fin (- 50)]" by (auto simp add: varies_def)
  from correlation_symmetric_diagonal [of ?m "''Close''" "''Volume''" "[PInf, Fin 100, Fin (- 50)]"]
    col v
  show ?thesis
    using correlation_symmetric_diagonal
      [of ?m "''Trend_Percentage''" "''Trend_Percentage''" "[PInf, Fin 100, Fin (- 50)]"]
    by simp
qed

end
